theory Spec2Isabelle
  imports Main
begin

section \<open>A project-tracking web application: routes, guards and schema bootstrap\<close>

text \<open>
  The application is an Express server over a MySQL store. A request passes a chain of
  middleware functions; each one either answers the request or hands it to the next one.
  The model follows that shape: a middleware is a function from a request context to an
  outcome, a route is the list of its middleware as the router declares it.

  The body of a request is parsed by \<open>express.json()\<close> and by
  \<open>express.urlencoded({ extended: true })\<close>, so a field of the body is any JSON value:
  a string, a number, an array, an object, or absent.

  What the repository calls but does not contain is a parameter of the model, collected
  in the record \<open>lib\<close>: the white space of JavaScript strings, the validator library's
  \<open>isEmail\<close>, \<open>normalizeEmail\<close> and \<open>isISO8601\<close> and the text it reads a value
  that is not a string as, JavaScript's \<open>Date\<close> and \<open>isNaN\<close>, bcrypt's \<open>hash\<close>
  and \<open>compare\<close>, and the comparisons, the ordering and the binding of values of the
  MySQL server and its driver. The store is two tables held in memory, and a statement
  sent to it is executed as written; the \<open>catch\<close> branches that only an exception of
  the database driver reaches are not modelled. A request is served from start to end
  before the next one is looked at.
\<close>

subsection \<open>Strings\<close>

definition is_lower :: "char \<Rightarrow> bool" where
  "is_lower c \<longleftrightarrow> 97 \<le> (of_char c :: nat) \<and> (of_char c :: nat) \<le> 122"

definition is_upper :: "char \<Rightarrow> bool" where
  "is_upper c \<longleftrightarrow> 65 \<le> (of_char c :: nat) \<and> (of_char c :: nat) \<le> 90"

definition is_digit :: "char \<Rightarrow> bool" where
  "is_digit c \<longleftrightarrow> 48 \<le> (of_char c :: nat) \<and> (of_char c :: nat) \<le> 57"

text \<open>The regular expression \<open>/^[a-zA-Z0-9_]+$/\<close>.\<close>

definition matches_word :: "string \<Rightarrow> bool" where
  "matches_word s \<longleftrightarrow>
     s \<noteq> [] \<and> list_all (\<lambda>c. is_lower c \<or> is_upper c \<or> is_digit c \<or> c = CHR ''_'') s"

text \<open>
  The regular expression \<open>/^(?=.*[a-z])(?=.*[A-Z])(?=.*\d)/\<close>. A dot matches no line
  terminator, so the three look-aheads search the first line of the string only.
\<close>

definition first_line :: "string \<Rightarrow> string" where
  "first_line s = takeWhile (\<lambda>c. c \<noteq> CHR 0x0A \<and> c \<noteq> CHR 0x0D) s"

definition matches_mixed :: "string \<Rightarrow> bool" where
  "matches_mixed s \<longleftrightarrow>
     list_ex is_lower (first_line s) \<and> list_ex is_upper (first_line s) \<and>
     list_ex is_digit (first_line s)"

text \<open>\<open>s.indexOf(p) > -1\<close>: the string \<open>p\<close> occurs in \<open>s\<close>.\<close>

fun starts_with :: "string \<Rightarrow> string \<Rightarrow> bool" where
  "starts_with s [] = True"
| "starts_with [] (p # ps) = False"
| "starts_with (c # cs) (p # ps) = (c = p \<and> starts_with cs ps)"

fun str_includes :: "string \<Rightarrow> string \<Rightarrow> bool" where
  "str_includes [] p = (p = [])"
| "str_includes (c # cs) p = (starts_with (c # cs) p \<or> str_includes cs p)"

text \<open>A number written in decimal, as a template literal prints it.\<close>

function dec :: "nat \<Rightarrow> string" where
  "dec n = (if n < 10 then [char_of (48 + n)] else dec (n div 10) @ [char_of (48 + n mod 10)])"
  by pat_completeness auto
termination
  by (relation "measure id") auto

declare dec.simps [simp del]

definition show_int :: "int \<Rightarrow> string" where
  "show_int i = (if i < 0 then CHR ''-'' # dec (nat (- i)) else dec (nat i))"

text \<open>JavaScript's truthiness of an optional string: \<open>undefined\<close> and \<open>''\<close> are falsy.\<close>

definition truthy :: "string option \<Rightarrow> bool" where
  "truthy v \<longleftrightarrow> (case v of None \<Rightarrow> False | Some s \<Rightarrow> s \<noteq> [])"

text \<open>\<open>a || b\<close> on optional strings.\<close>

definition or_else :: "string option \<Rightarrow> string option \<Rightarrow> string option" where
  "or_else a b = (if truthy a then a else b)"

subsection \<open>JavaScript values\<close>

text \<open>
  The values of JSON, with \<open>undefined\<close> for what is absent. Numbers are the integers.
\<close>

datatype val =
    JUndefined
  | JNull
  | JBool bool
  | JNum int
  | JStr string
  | JArr "val list"
  | JObj "(string \<times> val) list"

text \<open>Truthiness, as \<open>!v\<close>, \<open>a && b\<close> and \<open>a || b\<close> read a value.\<close>

fun js_truthy :: "val \<Rightarrow> bool" where
  "js_truthy JUndefined = False"
| "js_truthy JNull = False"
| "js_truthy (JBool b) = b"
| "js_truthy (JNum n) = (n \<noteq> 0)"
| "js_truthy (JStr s) = (s \<noteq> [])"
| "js_truthy (JArr xs) = True"
| "js_truthy (JObj kvs) = True"

definition js_or :: "val \<Rightarrow> val \<Rightarrow> val" where
  "js_or a b = (if js_truthy a then a else b)"

text \<open>
  \<open>a === b\<close> on two values read from different places of a request: primitive values
  are compared by type and value, and two arrays or objects are never the same object.
\<close>

fun strict_eq :: "val \<Rightarrow> val \<Rightarrow> bool" where
  "strict_eq JUndefined JUndefined = True"
| "strict_eq JNull JNull = True"
| "strict_eq (JBool a) (JBool b) = (a = b)"
| "strict_eq (JNum a) (JNum b) = (a = b)"
| "strict_eq (JStr a) (JStr b) = (a = b)"
| "strict_eq a b = False"

fun is_array :: "val \<Rightarrow> bool" where
  "is_array (JArr xs) = True"
| "is_array v = False"

text \<open>
  A value as the receiver of a string method such as \<open>v.trim()\<close>, or as an argument
  that must be a string: anything but a string makes the call throw.
\<close>

fun as_text :: "val \<Rightarrow> string option" where
  "as_text (JStr s) = Some s"
| "as_text v = None"

definition opt_val :: "string option \<Rightarrow> val" where
  "opt_val v = (case v of None \<Rightarrow> JUndefined | Some s \<Rightarrow> JStr s)"

text \<open>
  A value in a template literal: \<open>String(v)\<close>. An array prints its items with commas
  between them, an item that is \<open>null\<close> or \<open>undefined\<close> as nothing.
\<close>

fun join_comma :: "string list \<Rightarrow> string" where
  "join_comma [] = []"
| "join_comma [s] = s"
| "join_comma (s # t # ss) = s @ '','' @ join_comma (t # ss)"

fun js_string :: "val \<Rightarrow> string" where
  "js_string JUndefined = ''undefined''"
| "js_string JNull = ''null''"
| "js_string (JBool b) = (if b then ''true'' else ''false'')"
| "js_string (JNum n) = show_int n"
| "js_string (JStr s) = s"
| "js_string (JArr xs) =
     join_comma (map (\<lambda>x. if x = JUndefined \<or> x = JNull then [] else js_string x) xs)"
| "js_string (JObj kvs) = ''[object Object]''"

subsection \<open>The store\<close>

text \<open>
  The rows of the two tables of \<open>createTables.js\<close>. The time stamps that the server
  maintains by itself (\<open>created_at\<close>, \<open>updated_at\<close>) are left out. \<open>p_uid\<close> is the
  column \<open>uid\<close> of \<open>projects\<close>, the owner.
\<close>

record user_row =
  u_uid :: int
  u_username :: string
  u_password :: string
  u_email :: string

record project_row =
  p_pid :: int
  p_title :: string
  p_start_date :: string
  p_end_date :: "string option"
  p_short_description :: string
  p_phase :: string
  p_uid :: int

text \<open>A table with its \<open>AUTO_INCREMENT\<close> counter.\<close>

record store =
  users :: "user_row list"
  next_uid :: int
  projects :: "project_row list"
  next_pid :: int

record lib =
  isWhiteSpace :: "char \<Rightarrow> bool"
  stringify :: "val \<Rightarrow> string"
  isEmail :: "string \<Rightarrow> bool"
  normalizeEmail :: "string \<Rightarrow> string"
  isISO8601 :: "string \<Rightarrow> bool"
  toDate :: "val \<Rightarrow> int option"
  jsIsNaN :: "string \<Rightarrow> bool"
  bcrypt_hash :: "string \<Rightarrow> string"
  bcrypt_compare :: "string \<Rightarrow> string \<Rightarrow> bool"
  sqlStrEq :: "string \<Rightarrow> string \<Rightarrow> bool"
  sqlInt :: "string \<Rightarrow> int option"
  sqlBind :: "val \<Rightarrow> string option"
  orderByStartDesc :: "project_row list \<Rightarrow> project_row list"

text \<open>
  \<open>isWhiteSpace\<close> tells the characters that \<open>String.prototype.trim\<close> and the
  validator's \<open>trim\<close> remove. \<open>stringify v\<close> is the text that the validation library
  reads a number, a boolean, an array or an object as. \<open>toDate v\<close> is the time value of
  \<open>new Date(v)\<close> in milliseconds, \<open>None\<close> for an invalid date. \<open>bcrypt_hash\<close> and
  \<open>bcrypt_compare\<close> are bcrypt on strings; on anything else bcrypt throws. \<open>sqlStrEq\<close>
  is the equality of the collation of a text column. \<open>sqlInt s\<close> is the integer that
  the server compares with an \<open>INT\<close> column when it is handed the text \<open>s\<close>, \<open>None\<close>
  when no integer equals it. \<open>sqlBind v\<close> is the text that a column holds once the
  driver has bound a value \<open>v\<close> that is not a string, \<open>None\<close> when the statement
  fails. \<open>orderByStartDesc\<close> is \<open>ORDER BY start_date DESC\<close>.
\<close>

text \<open>\<open>trim\<close> removes the white space at both ends of a string.\<close>

definition trim :: "lib \<Rightarrow> string \<Rightarrow> string" where
  "trim L s = rev (dropWhile (isWhiteSpace L) (rev (dropWhile (isWhiteSpace L) s)))"

text \<open>
  A value bound to a parameter of a statement: a string is stored as it is, and
  \<open>undefined\<close> makes the driver throw.
\<close>

definition bound :: "lib \<Rightarrow> val \<Rightarrow> string option" where
  "bound L v = (case v of JStr s \<Rightarrow> Some s | JUndefined \<Rightarrow> None | _ \<Rightarrow> sqlBind L v)"

subsection \<open>Requests, sessions and responses\<close>

text \<open>
  A response is a rendered view with its status and its locals, a redirect, or a JSON
  body with its status. \<open>res.redirect(url)\<close> sets the status 302 itself, whatever
  \<open>res.status\<close> was given before it.
\<close>

datatype response =
    Render nat string val
  | Redirect string
  | Json nat val

record session_user =
  s_uid :: int
  s_username :: string
  s_email :: string

record session =
  user :: "session_user option"
  returnTo :: "string option"
  successMessage :: "string option"
  errorMessage :: "string option"
  csrfToken :: "string option"

text \<open>
  \<open>r_id\<close> is \<open>req.params.id\<close>, the empty string when the route has no such parameter.
  \<open>r_xhr\<close> is \<open>req.xhr\<close>. \<open>r_body r k\<close> is \<open>req.body[k]\<close>.
\<close>

record request =
  r_method :: string
  r_xhr :: bool
  r_headers :: "string \<rightharpoonup> string"
  r_ip :: string
  r_id :: string
  r_body :: "string \<Rightarrow> val"

text \<open>An entry of \<open>validationResult(req).array()\<close>: the field and the message.\<close>

record verror =
  e_param :: string
  e_msg :: string

record ctx =
  sess :: session
  req :: request
  db :: store
  errs :: "verror list"

datatype outcome = Respond response ctx | Next ctx

text \<open>Express runs the middleware of a route in order until one of them responds.\<close>

fun run_chain :: "(ctx \<Rightarrow> outcome) list \<Rightarrow> ctx \<Rightarrow> outcome" where
  "run_chain [] c = Next c"
| "run_chain (m # ms) c =
     (case m c of Respond r c' \<Rightarrow> Respond r c' | Next c' \<Rightarrow> run_chain ms c')"

text \<open>\<open>req.xhr || req.headers.accept?.indexOf('json') > -1\<close>\<close>

definition wants_json :: "request \<Rightarrow> bool" where
  "wants_json r \<longleftrightarrow>
     r_xhr r \<or> (case r_headers r ''accept'' of None \<Rightarrow> False | Some a \<Rightarrow> str_includes a ''json'')"

definition user_val :: "session_user \<Rightarrow> val" where
  "user_val u =
     JObj [(''uid'', JNum (s_uid u)), (''username'', JStr (s_username u)),
           (''email'', JStr (s_email u))]"

definition user_or_null :: "session \<Rightarrow> val" where
  "user_or_null s = (case user s of None \<Rightarrow> JNull | Some u \<Rightarrow> user_val u)"

definition error_val :: "verror \<Rightarrow> val" where
  "error_val e = JObj [(''msg'', JStr (e_msg e)), (''param'', JStr (e_param e))]"

definition body_val :: "request \<Rightarrow> string list \<Rightarrow> val" where
  "body_val r ks = JObj (map (\<lambda>k. (k, r_body r k)) ks)"

subsection \<open>Field validation (express-validator)\<close>

text \<open>
  A validation chain reads one field of the body. Its sanitizers write the new value back
  into the body, every validator of the chain runs, and each one that fails adds an error
  with the message that follows it. A standard validator or sanitizer works on text: it
  reads a string as it is, \<open>undefined\<close> and \<open>null\<close> as the empty string, and any
  other value through the library's conversion. On an array it works on each item: a
  validator adds an error for each item that fails, a sanitizer writes back the array of
  the new items. A custom validator is handed the value as it is.
\<close>

definition field :: "ctx \<Rightarrow> string \<Rightarrow> val" where
  "field c k = r_body (req c) k"

definition set_field :: "string \<Rightarrow> val \<Rightarrow> ctx \<Rightarrow> ctx" where
  "set_field k v c = c\<lparr>req := (req c)\<lparr>r_body := (r_body (req c))(k := v)\<rparr>\<rparr>"

definition text_of :: "lib \<Rightarrow> val \<Rightarrow> string" where
  "text_of L v =
     (case v of JStr s \<Rightarrow> s | JUndefined \<Rightarrow> [] | JNull \<Rightarrow> [] | _ \<Rightarrow> stringify L v)"

fun items :: "val \<Rightarrow> val list" where
  "items (JArr xs) = xs"
| "items v = [v]"

definition check :: "bool \<Rightarrow> string \<Rightarrow> string \<Rightarrow> verror list" where
  "check ok k m = (if ok then [] else [\<lparr>e_param = k, e_msg = m\<rparr>])"

definition validate :: "lib \<Rightarrow> (string \<Rightarrow> bool) \<Rightarrow> string \<Rightarrow> string \<Rightarrow> val \<Rightarrow> verror list" where
  "validate L P k m v = concat (map (\<lambda>x. check (P (text_of L x)) k m) (items v))"

definition sanitize :: "lib \<Rightarrow> (string \<Rightarrow> string) \<Rightarrow> val \<Rightarrow> val" where
  "sanitize L f v =
     (case v of
        JArr xs \<Rightarrow> JArr (map (\<lambda>x. JStr (f (text_of L x))) xs)
      | _ \<Rightarrow> JStr (f (text_of L v)))"

definition add_errors :: "verror list \<Rightarrow> ctx \<Rightarrow> ctx" where
  "add_errors es c = c\<lparr>errs := errs c @ es\<rparr>"

subsection \<open>Registration and login (\<open>routes/auth.js\<close>)\<close>

definition requireAuth :: "ctx \<Rightarrow> outcome" where
  "requireAuth c =
     (if user (sess c) = None then Respond (Redirect ''/login'') c else Next c)"

definition requireGuest :: "ctx \<Rightarrow> outcome" where
  "requireGuest c =
     (if user (sess c) \<noteq> None then Respond (Redirect ''/dashboard'') c else Next c)"

text \<open>The four chains of \<open>registerValidation\<close>, in the order of the array.\<close>

definition register_username :: "lib \<Rightarrow> ctx \<Rightarrow> ctx" where
  "register_username L c =
     (let v = sanitize L (trim L) (field c ''username'')
      in add_errors
           (validate L (\<lambda>s. 3 \<le> length s \<and> length s \<le> 50) ''username''
              ''Username must be between 3 and 50 characters'' v @
            validate L matches_word ''username''
              ''Username can only contain letters, numbers, and underscores'' v)
           (set_field ''username'' v c))"

definition register_email :: "lib \<Rightarrow> ctx \<Rightarrow> ctx" where
  "register_email L c =
     (let v = sanitize L (trim L) (field c ''email'')
      in add_errors
           (validate L (isEmail L) ''email'' ''Please provide a valid email address'' v)
           (set_field ''email'' (sanitize L (normalizeEmail L) v) c))"

definition register_password :: "lib \<Rightarrow> ctx \<Rightarrow> ctx" where
  "register_password L c =
     (let v = field c ''password''
      in add_errors
           (validate L (\<lambda>s. 6 \<le> length s) ''password''
              ''Password must be at least 6 characters long'' v @
            validate L matches_mixed ''password''
              ''Password must contain at least one lowercase letter, one uppercase letter, and one number''
              v)
           c)"

text \<open>The custom validator of \<open>confirmPassword\<close>: \<open>value !== req.body.password\<close>.\<close>

definition register_confirm :: "ctx \<Rightarrow> ctx" where
  "register_confirm c =
     add_errors
       (check (strict_eq (field c ''confirmPassword'') (field c ''password''))
          ''confirmPassword'' ''Passwords do not match'')
       c"

definition register_validated :: "lib \<Rightarrow> ctx \<Rightarrow> ctx" where
  "register_validated L c =
     register_confirm (register_password L (register_email L (register_username L c)))"

definition registerValidation :: "lib \<Rightarrow> ctx \<Rightarrow> outcome" where
  "registerValidation L c = Next (register_validated L c)"

definition login_validated :: "lib \<Rightarrow> ctx \<Rightarrow> ctx" where
  "login_validated L c =
     (let v = sanitize L (trim L) (field c ''username'');
          c1 = add_errors (validate L (\<lambda>s. s \<noteq> []) ''username'' ''Username is required'' v)
                 (set_field ''username'' v c)
      in add_errors
           (validate L (\<lambda>s. s \<noteq> []) ''password'' ''Password is required'' (field c1 ''password''))
           c1)"

definition loginValidation :: "lib \<Rightarrow> ctx \<Rightarrow> outcome" where
  "loginValidation L c = Next (login_validated L c)"

definition register_page :: "val \<Rightarrow> val \<Rightarrow> response" where
  "register_page es fd =
     Render 200 ''register''
       (JObj [(''title'', JStr ''Register''), (''currentPage'', JStr ''register''),
              (''errors'', es), (''formData'', fd)])"

definition login_page :: "string \<Rightarrow> response" where
  "login_page e =
     Render 200 ''login''
       (JObj [(''title'', JStr ''Login''), (''currentPage'', JStr ''login''),
              (''error'', JStr e)])"

text \<open>\<open>formData: req.body\<close> of a \<open>catch\<close> branch, with the fields of the form.\<close>

definition register_failed :: "ctx \<Rightarrow> response" where
  "register_failed c =
     register_page (JArr [JObj [(''msg'', JStr ''Registration failed. Please try again.'')]])
       (body_val (req c) [''username'', ''email'', ''password'', ''confirmPassword''])"

definition users_matching :: "lib \<Rightarrow> string \<Rightarrow> string \<Rightarrow> store \<Rightarrow> user_row list" where
  \<comment> \<open>\<open>SELECT uid FROM users WHERE username = ? OR email = ?\<close>\<close>
  "users_matching L n e d =
     filter (\<lambda>u. sqlStrEq L (u_username u) n \<or> sqlStrEq L (u_email u) e) (users d)"

definition users_named :: "lib \<Rightarrow> string \<Rightarrow> store \<Rightarrow> user_row list" where
  \<comment> \<open>\<open>SELECT * FROM users WHERE username = ?\<close>\<close>
  "users_named L n d = filter (\<lambda>u. sqlStrEq L (u_username u) n) (users d)"

definition insert_user :: "string \<Rightarrow> string \<Rightarrow> string \<Rightarrow> store \<Rightarrow> store" where
  \<comment> \<open>\<open>INSERT INTO users (username, email, password) VALUES (?, ?, ?)\<close>\<close>
  "insert_user n e p d =
     d\<lparr>users := users d @ [\<lparr>u_uid = next_uid d, u_username = n, u_password = p, u_email = e\<rparr>],
       next_uid := next_uid d + 1\<rparr>"

text \<open>
  The handler of \<open>POST /register\<close>. \<open>username.trim()\<close> and \<open>email.trim()\<close> throw on
  a value that is not a string, and so does \<open>bcrypt.hash(password, 12)\<close>; the
  \<open>catch\<close> branch answers.
\<close>

definition register_handler :: "lib \<Rightarrow> ctx \<Rightarrow> outcome" where
  "register_handler L c =
     (let formData = body_val (req c) [''username'', ''email'']
      in if errs c \<noteq> [] then
           Respond (register_page (JArr (map error_val (errs c))) formData) c
         else
           (case (as_text (field c ''username''), as_text (field c ''email'')) of
              (Some username, Some email) \<Rightarrow>
                if users_matching L (trim L username) (trim L email) (db c) \<noteq> [] then
                  Respond
                    (register_page
                       (JArr [JObj [(''msg'', JStr ''Username or email already exists'')]])
                       formData) c
                else
                  (case as_text (field c ''password'') of
                     Some password \<Rightarrow>
                       Respond (Redirect ''/dashboard'')
                         (c\<lparr>db := insert_user (trim L username) (trim L email)
                                   (bcrypt_hash L password) (db c),
                            sess := (sess c)
                              \<lparr>user := Some \<lparr>s_uid = next_uid (db c),
                                             s_username = trim L username,
                                             s_email = trim L email\<rparr>,
                               successMessage :=
                                 Some ''Account created successfully! Welcome to Project Manager.''\<rparr>\<rparr>)
                   | None \<Rightarrow> Respond (register_failed c) c)
            | _ \<Rightarrow> Respond (register_failed c) c))"

definition POST_register :: "lib \<Rightarrow> ctx \<Rightarrow> outcome" where
  "POST_register L = run_chain [requireGuest, registerValidation L, register_handler L]"

text \<open>
  The handler of \<open>POST /login\<close>. \<open>username.trim()\<close> throws on a value that is not a
  string, before the query; \<open>bcrypt.compare(password, user.password)\<close> throws on a
  password that is not a string, after the query has found the user. The \<open>catch\<close>
  branch answers both.
\<close>

definition login_handler :: "lib \<Rightarrow> ctx \<Rightarrow> outcome" where
  "login_handler L c =
     (if errs c \<noteq> [] then Respond (login_page ''Please provide valid username and password'') c
      else
        (case as_text (field c ''username'') of
           None \<Rightarrow> Respond (login_page ''Login failed. Please try again.'') c
         | Some username \<Rightarrow>
             (case users_named L (trim L username) (db c) of
                [] \<Rightarrow> Respond (login_page ''Invalid username or password'') c
              | u # _ \<Rightarrow>
                  (case as_text (field c ''password'') of
                     None \<Rightarrow> Respond (login_page ''Login failed. Please try again.'') c
                   | Some password \<Rightarrow>
                       if \<not> bcrypt_compare L password (u_password u) then
                         Respond (login_page ''Invalid username or password'') c
                       else
                         Respond
                           (Redirect
                              (case or_else (returnTo (sess c)) (Some ''/dashboard'') of
                                 Some url \<Rightarrow> url | None \<Rightarrow> ''/dashboard''))
                           (c\<lparr>sess := (sess c)
                                \<lparr>user := Some \<lparr>s_uid = u_uid u, s_username = u_username u,
                                               s_email = u_email u\<rparr>,
                                 returnTo := None,
                                 successMessage :=
                                   Some (''Welcome back, '' @ u_username u @ ''!'')\<rparr>\<rparr>)))))"

definition POST_login :: "lib \<Rightarrow> ctx \<Rightarrow> outcome" where
  "POST_login L = run_chain [requireGuest, loginValidation L, login_handler L]"

text \<open>What a route answered, and the context it left.\<close>

fun reply :: "outcome \<Rightarrow> response option" where
  "reply (Respond r c) = Some r"
| "reply (Next c) = None"

fun final :: "outcome \<Rightarrow> ctx" where
  "final (Respond r c) = c"
| "final (Next c) = c"

subsection \<open>Project routes (\<open>routes/project.js\<close>)\<close>

text \<open>\<open>new Date(a) <= new Date(b)\<close>: a comparison with an invalid date is false.\<close>

definition date_le :: "lib \<Rightarrow> val \<Rightarrow> val \<Rightarrow> bool" where
  "date_le L a b = (case (toDate L a, toDate L b) of (Some x, Some y) \<Rightarrow> x \<le> y | _ \<Rightarrow> False)"

definition project_title :: "lib \<Rightarrow> ctx \<Rightarrow> ctx" where
  "project_title L c =
     (let v = sanitize L (trim L) (field c ''title'')
      in add_errors
           (validate L (\<lambda>s. 3 \<le> length s \<and> length s \<le> 100) ''title''
              ''Project title must be between 3 and 100 characters'' v)
           (set_field ''title'' v c))"

definition project_short_description :: "lib \<Rightarrow> ctx \<Rightarrow> ctx" where
  "project_short_description L c =
     (let v = sanitize L (trim L) (field c ''short_description'')
      in add_errors
           (validate L (\<lambda>s. 10 \<le> length s \<and> length s \<le> 500) ''short_description''
              ''Short description must be between 10 and 500 characters'' v)
           (set_field ''short_description'' v c))"

definition project_start_date :: "lib \<Rightarrow> ctx \<Rightarrow> ctx" where
  "project_start_date L c =
     add_errors
       (validate L (isISO8601 L) ''start_date'' ''Please provide a valid start date''
          (field c ''start_date''))
       c"

text \<open>
  The chain of \<open>end_date\<close>. \<open>optional({ nullable: true, checkFalsy: true })\<close> skips the
  chain when the field is falsy: absent, \<open>null\<close>, empty. The custom validator throws
  when \<open>value && req.body.start_date && new Date(value) <= new Date(req.body.start_date)\<close>.
\<close>

definition end_date_rule :: "lib \<Rightarrow> ctx \<Rightarrow> val \<Rightarrow> bool" where
  "end_date_rule L c v \<longleftrightarrow>
     \<not> (js_truthy v \<and> js_truthy (field c ''start_date'') \<and> date_le L v (field c ''start_date''))"

definition project_end_date :: "lib \<Rightarrow> ctx \<Rightarrow> ctx" where
  "project_end_date L c =
     (if \<not> js_truthy (field c ''end_date'') then c
      else
        add_errors
          (validate L (isISO8601 L) ''end_date'' ''Please provide a valid end date''
             (field c ''end_date'') @
           check (end_date_rule L c (field c ''end_date'')) ''end_date''
             ''End date must be after start date'')
          c)"

definition validPhases :: "string list" where
  "validPhases = [''design'', ''development'', ''testing'', ''deployment'', ''complete'']"

definition project_phase :: "lib \<Rightarrow> ctx \<Rightarrow> ctx" where
  "project_phase L c =
     add_errors
       (validate L (\<lambda>s. s \<in> set validPhases) ''phase'' ''Please select a valid phase''
          (field c ''phase''))
       c"

definition project_validated :: "lib \<Rightarrow> ctx \<Rightarrow> ctx" where
  "project_validated L c =
     project_phase L (project_end_date L (project_start_date L
       (project_short_description L (project_title L c))))"

definition projectValidation :: "lib \<Rightarrow> ctx \<Rightarrow> outcome" where
  "projectValidation L c = Next (project_validated L c)"

definition project_fields :: "string list" where
  "project_fields = [''title'', ''short_description'', ''start_date'', ''end_date'', ''phase'']"

definition user_opt :: "session \<Rightarrow> val" where
  "user_opt s = (case user s of None \<Rightarrow> JUndefined | Some u \<Rightarrow> user_val u)"

definition add_project_page :: "ctx \<Rightarrow> val \<Rightarrow> val \<Rightarrow> response" where
  "add_project_page c es fd =
     Render 200 ''add-project''
       (JObj [(''title'', JStr ''Add New Project''), (''currentPage'', JStr ''add-project''),
              (''user'', user_opt (sess c)), (''errors'', es), (''formData'', fd)])"

definition add_project_failed :: "ctx \<Rightarrow> response" where
  "add_project_failed c =
     add_project_page c (JArr [JObj [(''msg'', JStr ''Failed to add project. Please try again.'')]])
       (body_val (req c) project_fields)"

definition insert_project ::
  "string \<Rightarrow> string \<Rightarrow> string \<Rightarrow> string option \<Rightarrow> string \<Rightarrow> int \<Rightarrow> store \<Rightarrow> store" where
  \<comment> \<open>\<open>INSERT INTO projects (title, short_description, start_date, end_date, phase, uid)\<close>\<close>
  "insert_project t sd st en ph u d =
     d\<lparr>projects := projects d @
          [\<lparr>p_pid = next_pid d, p_title = t, p_start_date = st, p_end_date = en,
            p_short_description = sd, p_phase = ph, p_uid = u\<rparr>],
       next_pid := next_pid d + 1\<rparr>"

text \<open>
  \<open>end_date || null\<close>, bound to its parameter: \<open>NULL\<close> for a falsy value, else what
  the value is stored as; \<open>None\<close> when the statement fails.
\<close>

definition end_or_null :: "lib \<Rightarrow> val \<Rightarrow> string option option" where
  "end_or_null L v =
     (if js_truthy v then (case bound L v of None \<Rightarrow> None | Some s \<Rightarrow> Some (Some s))
      else Some None)"

text \<open>
  The handler of \<open>POST /add-project\<close>. Building and binding the values of the statement
  throws when \<open>title\<close> or \<open>short_description\<close> is not a string (\<open>.trim()\<close>), when
  a value cannot be bound, or when the session has no user.
\<close>

definition add_project_handler :: "lib \<Rightarrow> ctx \<Rightarrow> outcome" where
  "add_project_handler L c =
     (if errs c \<noteq> [] then
        Respond (add_project_page c (JArr (map error_val (errs c)))
                   (body_val (req c) project_fields)) c
      else
        (case (as_text (field c ''title''), as_text (field c ''short_description''),
               bound L (field c ''start_date''), end_or_null L (field c ''end_date''),
               bound L (field c ''phase''), user (sess c)) of
           (Some title, Some short_description, Some start_date, Some end_date, Some phase,
            Some u) \<Rightarrow>
             Respond (Redirect ''/dashboard'')
               (c\<lparr>db := insert_project (trim L title) (trim L short_description) start_date
                         end_date phase (s_uid u) (db c),
                  sess := (sess c)\<lparr>successMessage := Some ''Project added successfully!''\<rparr>\<rparr>)
         | _ \<Rightarrow> Respond (add_project_failed c) c))"

definition POST_add_project :: "lib \<Rightarrow> ctx \<Rightarrow> outcome" where
  "POST_add_project L = run_chain [requireAuth, projectValidation L, add_project_handler L]"

text \<open>The condition \<open>WHERE pid = ? AND uid = ?\<close>, with the route's \<open>:id\<close> for \<open>pid\<close>.\<close>

definition owned :: "lib \<Rightarrow> string \<Rightarrow> int \<Rightarrow> project_row \<Rightarrow> bool" where
  "owned L i u p \<longleftrightarrow> sqlInt L i = Some (p_pid p) \<and> p_uid p = u"

definition project_val :: "project_row \<Rightarrow> (string \<times> val) list" where
  "project_val p =
     [(''pid'', JNum (p_pid p)), (''title'', JStr (p_title p)),
      (''start_date'', JStr (p_start_date p)),
      (''end_date'', (case p_end_date p of None \<Rightarrow> JNull | Some e \<Rightarrow> JStr e)),
      (''short_description'', JStr (p_short_description p)),
      (''phase'', JStr (p_phase p)), (''uid'', JNum (p_uid p))]"

definition edit_project_failed :: "ctx \<Rightarrow> response" where
  "edit_project_failed c =
     Render 200 ''edit-project''
       (JObj [(''title'', JStr ''Edit Project''), (''currentPage'', JStr ''dashboard''),
              (''project'', JObj ((''pid'', JStr (r_id (req c))) #
                 map (\<lambda>k. (k, r_body (req c) k)) project_fields)),
              (''errors'', JArr [JObj [(''msg'', JStr ''Failed to update project. Please try again.'')]]),
              (''formData'', body_val (req c) project_fields)])"

definition update_project ::
  "lib \<Rightarrow> string \<Rightarrow> int \<Rightarrow> string \<Rightarrow> string \<Rightarrow> string \<Rightarrow> string option \<Rightarrow> string \<Rightarrow> store \<Rightarrow> store" where
  \<comment> \<open>\<open>UPDATE projects SET title = ?, ... WHERE pid = ? AND uid = ?\<close>\<close>
  "update_project L i u t sd st en ph d =
     d\<lparr>projects :=
          map (\<lambda>p. if owned L i u p
                    then p\<lparr>p_title := t, p_short_description := sd, p_start_date := st,
                           p_end_date := en, p_phase := ph\<rparr>
                    else p)
            (projects d)\<rparr>"

text \<open>
  The handler of \<open>POST /edit-project/:id\<close>: the ownership query comes first, the
  validation errors second, the update last. The title of the page with the errors is a
  template literal over \<open>formData.title\<close>.
\<close>

definition edit_project_handler :: "lib \<Rightarrow> ctx \<Rightarrow> outcome" where
  "edit_project_handler L c =
     (case user (sess c) of
        None \<Rightarrow> Respond (edit_project_failed c) c
      | Some u \<Rightarrow>
          if filter (owned L (r_id (req c)) (s_uid u)) (projects (db c)) = [] then
            Respond (Redirect ''/dashboard'')
              (c\<lparr>sess := (sess c)\<lparr>errorMessage :=
                   Some ''Project not found or you do not have permission to edit it.''\<rparr>\<rparr>)
          else if errs c \<noteq> [] then
            Respond
              (Render 200 ''edit-project''
                 (JObj [(''title'', JStr (''Edit Project: '' @
                           js_string (field c ''title''))),
                        (''currentPage'', JStr ''dashboard''),
                        (''project'', JObj ((''pid'', JStr (r_id (req c))) #
                           map (\<lambda>k. (k, r_body (req c) k)) project_fields)),
                        (''errors'', JArr (map error_val (errs c))),
                        (''formData'', body_val (req c) project_fields)])) c
          else
            (case (as_text (field c ''title''), as_text (field c ''short_description''),
                   bound L (field c ''start_date''), end_or_null L (field c ''end_date''),
                   bound L (field c ''phase'')) of
               (Some title, Some short_description, Some start_date, Some end_date, Some phase) \<Rightarrow>
                 Respond (Redirect ''/dashboard'')
                   (c\<lparr>db := update_project L (r_id (req c)) (s_uid u) (trim L title)
                             (trim L short_description) start_date end_date phase (db c),
                      sess := (sess c)\<lparr>successMessage := Some ''Project updated successfully!''\<rparr>\<rparr>)
             | _ \<Rightarrow> Respond (edit_project_failed c) c))"

definition POST_edit_project :: "lib \<Rightarrow> ctx \<Rightarrow> outcome" where
  "POST_edit_project L = run_chain [requireAuth, projectValidation L, edit_project_handler L]"

text \<open>
  The handler of \<open>POST /delete-project/:id\<close>:
  \<open>DELETE FROM projects WHERE pid = ? AND uid = ?\<close>, then the flash message by the number
  of rows the statement removed.
\<close>

definition delete_project_handler :: "lib \<Rightarrow> ctx \<Rightarrow> outcome" where
  "delete_project_handler L c =
     (case user (sess c) of
        None \<Rightarrow>
          Respond (Redirect ''/dashboard'')
            (c\<lparr>sess := (sess c)\<lparr>errorMessage :=
                 Some ''Failed to delete project. Please try again.''\<rparr>\<rparr>)
      | Some u \<Rightarrow>
          Respond (Redirect ''/dashboard'')
            (c\<lparr>db := (db c)\<lparr>projects :=
                      filter (\<lambda>p. \<not> owned L (r_id (req c)) (s_uid u) p) (projects (db c))\<rparr>,
               sess :=
                 (if filter (owned L (r_id (req c)) (s_uid u)) (projects (db c)) = [] then
                    (sess c)\<lparr>errorMessage :=
                      Some ''Project not found or you do not have permission to delete it.''\<rparr>
                  else (sess c)\<lparr>successMessage := Some ''Project deleted successfully!''\<rparr>)\<rparr>))"

definition POST_delete_project :: "lib \<Rightarrow> ctx \<Rightarrow> outcome" where
  "POST_delete_project L = run_chain [requireAuth, delete_project_handler L]"

definition api_project_handler :: "lib \<Rightarrow> ctx \<Rightarrow> outcome" where
  "api_project_handler L c =
     (case user (sess c) of
        None \<Rightarrow> Respond (Json 500 (JObj [(''error'', JStr ''Failed to fetch project'')])) c
      | Some u \<Rightarrow>
          (case filter (owned L (r_id (req c)) (s_uid u)) (projects (db c)) of
             [] \<Rightarrow> Respond (Json 404 (JObj [(''error'', JStr ''Project not found'')])) c
           | p # _ \<Rightarrow> Respond (Json 200 (JObj (project_val p))) c))"

definition GET_api_project :: "lib \<Rightarrow> ctx \<Rightarrow> outcome" where
  "GET_api_project L = run_chain [requireAuth, api_project_handler L]"

text \<open>
  \<open>SELECT p.*, u.username, u.email FROM projects p JOIN users u ON p.uid = u.uid
  WHERE p.pid = ?\<close>: the pairs of a project with that number and its owner's row.
\<close>

definition project_with_owner :: "lib \<Rightarrow> string \<Rightarrow> store \<Rightarrow> (project_row \<times> user_row) list" where
  "project_with_owner L i d =
     concat (map (\<lambda>p. map (\<lambda>u. (p, u)) (filter (\<lambda>u. p_uid p = u_uid u) (users d)))
                 (filter (\<lambda>p. sqlInt L i = Some (p_pid p)) (projects d)))"

definition joined_val :: "project_row \<Rightarrow> user_row \<Rightarrow> val" where
  "joined_val p u =
     JObj (project_val p @ [(''username'', JStr (u_username u)), (''email'', JStr (u_email u))])"

text \<open>\<open>req.session.user && req.session.user.uid === project.uid\<close>\<close>

definition is_owner_val :: "session \<Rightarrow> project_row \<Rightarrow> val" where
  "is_owner_val s p = (case user s of None \<Rightarrow> JUndefined | Some u \<Rightarrow> JBool (s_uid u = p_uid p))"

text \<open>The handler of \<open>GET /project/:id\<close> in \<open>routes/project.js\<close>.\<close>

definition project_details_handler :: "lib \<Rightarrow> ctx \<Rightarrow> outcome" where
  "project_details_handler L c =
     (case project_with_owner L (r_id (req c)) (db c) of
        [] \<Rightarrow>
          Respond (Render 404 ''error''
            (JObj [(''title'', JStr ''Project Not Found''),
                   (''message'', JStr ''The project you are looking for does not exist.''),
                   (''user'', user_or_null (sess c))])) c
      | (p, u) # _ \<Rightarrow>
          Respond (Render 200 ''project-details''
            (JObj [(''title'', JStr (p_title p @ '' - Project Details'')),
                   (''user'', user_or_null (sess c)),
                   (''project'', joined_val p u),
                   (''isOwner'', is_owner_val (sess c) p)])) c)"

subsection \<open>Public routes (\<open>routes/public.js\<close>)\<close>

definition related_val :: "project_row \<Rightarrow> val" where
  "related_val p =
     JObj [(''pid'', JNum (p_pid p)), (''title'', JStr (p_title p)),
           (''phase'', JStr (p_phase p)), (''start_date'', JStr (p_start_date p))]"

text \<open>
  The handler of \<open>GET /project/:id\<close> in \<open>routes/public.js\<close>. The related projects are
  \<open>SELECT ... WHERE uid = ? AND pid != ? ORDER BY start_date DESC LIMIT 3\<close>.
\<close>

definition public_project_handler :: "lib \<Rightarrow> ctx \<Rightarrow> outcome" where
  "public_project_handler L c =
     (if r_id (req c) = [] \<or> jsIsNaN L (r_id (req c)) then
        Respond (Render 404 ''error''
          (JObj [(''title'', JStr ''Invalid Project''),
                 (''message'', JStr ''Invalid project ID provided.'')])) c
      else
        (case project_with_owner L (r_id (req c)) (db c) of
           [] \<Rightarrow>
             Respond (Render 404 ''error''
               (JObj [(''title'', JStr ''Project Not Found''),
                      (''message'', JStr ''The requested project could not be found.'')])) c
         | (p, u) # _ \<Rightarrow>
             Respond (Render 200 ''project-details''
               (JObj [(''title'', JStr (p_title p)),
                      (''currentPage'', JStr ''projects''),
                      (''user'', user_or_null (sess c)),
                      (''project'', joined_val p u),
                      (''relatedProjects'',
                         JArr (map related_val (take 3 (orderByStartDesc L
                           (filter (\<lambda>q. p_uid q = p_uid p \<and> sqlInt L (r_id (req c)) \<noteq> Some (p_pid q))
                              (projects (db c))))))),
                      (''canEdit'', is_owner_val (sess c) p)])) c))"

subsection \<open>The application (\<open>app.js\<close>)\<close>

text \<open>
  \<open>app.js\<close> mounts the public router, then the router of \<open>routes/auth.js\<close>, then the one
  of \<open>routes/project.js\<close>, then the 404 handler. A request reaches the first route that
  matches its method and path, so \<open>GET /project/:id\<close> is answered by the public router.
  \<open>app.js\<close> builds a \<open>csrfProtection\<close> middleware and never mounts it; the middleware that
  it does mount before the routers (security headers, the library's rate limiter, the
  session store, the body parsers) prepares the context that the routes receive.

  The table below has the seven routes that this development studies, in the order of
  the routers. The other routes of the repository (the pages, the lists, the search, the
  logout) only read the store or the session and are not in the table: for their paths
  the table says nothing about the program, and its last branch stands for a path that
  no router matches.
\<close>

definition not_found :: response where
  "not_found =
     Render 404 ''error''
       (JObj [(''title'', JStr ''Page Not Found''),
              (''message'', JStr ''The page you are looking for could not be found.''),
              (''error'', JObj [])])"

definition app :: "lib \<Rightarrow> string \<Rightarrow> ctx \<Rightarrow> outcome" where
  "app L route c =
     (let m = r_method (req c)
      in if m = ''GET'' \<and> route = ''/project/:id'' then public_project_handler L c
         else if m = ''POST'' \<and> route = ''/register'' then POST_register L c
         else if m = ''POST'' \<and> route = ''/login'' then POST_login L c
         else if m = ''POST'' \<and> route = ''/add-project'' then POST_add_project L c
         else if m = ''POST'' \<and> route = ''/edit-project/:id'' then POST_edit_project L c
         else if m = ''POST'' \<and> route = ''/delete-project/:id'' then POST_delete_project L c
         else if m = ''GET'' \<and> route = ''/api/projects/:id'' then GET_api_project L c
         else Respond not_found c)"

subsection \<open>Guards of \<open>middleware/auth.js\<close> and \<open>middleware/security.js\<close>\<close>

definition flash_error :: "string \<Rightarrow> ctx \<Rightarrow> ctx" where
  "flash_error m c = c\<lparr>sess := (sess c)\<lparr>errorMessage := Some m\<rparr>\<rparr>"

text \<open>
  \<open>requireProjectOwnership\<close>. Reading \<open>req.session.user.uid\<close> without a user throws
  inside the \<open>try\<close>; \<open>!userId\<close> holds for the number 0.
\<close>

definition requireProjectOwnership :: "lib \<Rightarrow> ctx \<Rightarrow> outcome" where
  "requireProjectOwnership L c =
     (case user (sess c) of
        None \<Rightarrow>
          if wants_json (req c) then Respond (Json 500 (JObj [(''error'', JStr ''Server error'')])) c
          else Respond (Redirect ''/dashboard'')
                 (flash_error ''Unable to verify project ownership.'' c)
      | Some u \<Rightarrow>
          if r_id (req c) = [] \<or> s_uid u = 0 then
            Respond (Json 400
              (JObj [(''error'', JStr ''Missing project ID or user authentication'')])) c
          else
            (case filter (\<lambda>p. sqlInt L (r_id (req c)) = Some (p_pid p)) (projects (db c)) of
               [] \<Rightarrow>
                 if wants_json (req c) then
                   Respond (Json 404 (JObj [(''error'', JStr ''Project not found'')])) c
                 else Respond (Redirect ''/dashboard'') (flash_error ''Project not found.'' c)
             | p # _ \<Rightarrow>
                 if p_uid p \<noteq> s_uid u then
                   if wants_json (req c) then
                     Respond (Json 403 (JObj [(''error'', JStr ''Access denied'')])) c
                   else Respond (Redirect ''/dashboard'')
                          (flash_error ''You do not have permission to access this project.'' c)
                 else Next c))"

text \<open>\<open>validateCSRFToken\<close> of \<open>middleware/auth.js\<close>: the token is the body field \<open>_csrf\<close>.\<close>

definition validateCSRFToken :: "ctx \<Rightarrow> outcome" where
  "validateCSRFToken c =
     (if r_method (req c) = ''GET'' then Next c
      else
        (let sessionToken = opt_val (csrfToken (sess c));
             requestToken = js_or (field c ''_csrf'') (opt_val (r_headers (req c) ''x-csrf-token''))
         in if \<not> js_truthy sessionToken \<or> \<not> js_truthy requestToken \<or>
               \<not> strict_eq sessionToken requestToken then
              if wants_json (req c) then
                Respond (Json 403 (JObj [(''error'', JStr ''Invalid CSRF token'')])) c
              else
                Respond (Render 403 ''error''
                  (JObj [(''title'', JStr ''Security Error''),
                         (''message'', JStr ''Invalid security token. Please try again.'')])) c
            else Next c))"

text \<open>
  \<open>csrfProtection\<close> of \<open>middleware/security.js\<close>: the token is the body field
  \<open>csrfToken\<close>. \<open>fresh\<close> is the random token that a \<open>GET\<close> request draws when the
  session has none.
\<close>

definition csrfProtection :: "string \<Rightarrow> ctx \<Rightarrow> outcome" where
  "csrfProtection fresh c =
     (if r_method (req c) = ''GET'' then
        (if \<not> truthy (csrfToken (sess c))
         then Next (c\<lparr>sess := (sess c)\<lparr>csrfToken := Some fresh\<rparr>\<rparr>)
         else Next c)
      else
        (let token = js_or (field c ''csrfToken'') (opt_val (r_headers (req c) ''x-csrf-token''))
         in if \<not> js_truthy token \<or> \<not> strict_eq token (opt_val (csrfToken (sess c))) then
              Respond (Render 403 ''error''
                (JObj [(''title'', JStr ''Security Error''),
                       (''message'',
                          JStr ''Invalid security token. Please refresh the page and try again.''),
                       (''user'', user_or_null (sess c))])) c
            else Next c))"

subsection \<open>The limiter of login attempts (\<open>authRateLimit\<close>)\<close>

record attempt =
  count :: int
  firstAttempt :: int

type_synonym attempts = "string \<rightharpoonup> attempt"

text \<open>The loop that deletes the entries older than the window.\<close>

definition clean_up :: "int \<Rightarrow> int \<Rightarrow> attempts \<Rightarrow> attempts" where
  "clean_up windowMs now m =
     (\<lambda>k. case m k of
             None \<Rightarrow> None
           | Some d \<Rightarrow> if now - firstAttempt d > windowMs then None else Some d)"

text \<open>\<open>Math.ceil(x / 1000 / 60)\<close> on an integer number of milliseconds.\<close>

definition minutes_up :: "int \<Rightarrow> int" where
  "minutes_up x = - ((- x) div 60000)"

datatype limited = Limited response | Passed "attempt option"

text \<open>The answer to a request over the limit, with the minutes left as its hint.\<close>

definition too_many :: "request \<Rightarrow> int \<Rightarrow> response" where
  "too_many r timeLeft =
     (if wants_json r then
        Json 429 (JObj [(''error'', JStr ''Too many login attempts''),
                        (''timeLeft'', JNum timeLeft)])
      else
        Render 200 ''login''
          (JObj [(''title'', JStr ''Login''),
                 (''error'', JStr (''Too many login attempts. Please try again in '' @
                    show_int timeLeft @ '' minutes.''))]))"

text \<open>
  The middleware that \<open>authRateLimit(maxAttempts, windowMs)\<close> returns, at the time
  \<open>now\<close>. When it lets the request pass it hands the route two functions, which share
  the entry \<open>userAttempts\<close> that it found.
\<close>

definition authRateLimit :: "int \<Rightarrow> int \<Rightarrow> int \<Rightarrow> request \<Rightarrow> attempts \<Rightarrow> limited \<times> attempts" where
  "authRateLimit maxAttempts windowMs now r m =
     (let m1 = clean_up windowMs now m;
          userAttempts = m1 (r_ip r)
      in case userAttempts of
           None \<Rightarrow> (Passed None, m1)
         | Some d \<Rightarrow>
             if count d \<ge> maxAttempts then
               (Limited (too_many r (minutes_up (windowMs - (now - firstAttempt d)))), m1)
             else (Passed (Some d), m1))"

text \<open>
  \<open>req.recordFailedAttempt\<close>: a new entry when the middleware found none, else one more
  on the count of the entry it found, which is the entry of the table as long as no other
  request has replaced it.
\<close>

definition recordFailedAttempt :: "attempt option \<Rightarrow> string \<Rightarrow> int \<Rightarrow> attempts \<Rightarrow> attempts" where
  "recordFailedAttempt userAttempts i now m =
     (case userAttempts of
        None \<Rightarrow> m(i \<mapsto> \<lparr>count = 1, firstAttempt = now\<rparr>)
      | Some d \<Rightarrow> (case m i of None \<Rightarrow> m | Some e \<Rightarrow> m(i \<mapsto> e\<lparr>count := count e + 1\<rparr>)))"

definition clearFailedAttempts :: "string \<Rightarrow> attempts \<Rightarrow> attempts" where
  "clearFailedAttempts i m = m(i := None)"

text \<open>
  A request to a route behind the limiter: its time, and what the route does with the two
  functions that the middleware attaches to the request, \<open>req.recordFailedAttempt\<close>
  (commented as the record of a login failure) and \<open>req.clearFailedAttempts\<close> (commented
  as the clearing on a successful login). No route of the repository mounts \<open>authRateLimit\<close>
  or calls the two functions, so the route is left open: \<open>a_result\<close> says which of the
  two it calls once, if any, after the middleware has passed the request on. The requests
  are served one after the other.
\<close>

datatype attempt_result = LoginFailed | LoginSucceeded | NoLogin

record arrival =
  a_req :: request
  a_now :: int
  a_result :: attempt_result

definition serve :: "int \<Rightarrow> int \<Rightarrow> attempts \<Rightarrow> arrival \<Rightarrow> limited \<times> attempts" where
  "serve maxAttempts windowMs m a =
     (case authRateLimit maxAttempts windowMs (a_now a) (a_req a) m of
        (Limited r, m1) \<Rightarrow> (Limited r, m1)
      | (Passed ua, m1) \<Rightarrow>
          (Passed ua,
           case a_result a of
             LoginFailed \<Rightarrow> recordFailedAttempt ua (r_ip (a_req a)) (a_now a) m1
           | LoginSucceeded \<Rightarrow> clearFailedAttempts (r_ip (a_req a)) m1
           | NoLogin \<Rightarrow> m1))"



subsection \<open>Rules of \<open>middleware/validation.js\<close>\<close>

text \<open>
  \<open>sanitizeInput\<close>: a value that is not a string is returned as it is; a string is
  trimmed and loses every \<open><\<close> and \<open>>\<close>.
\<close>

definition sanitizeInput :: "lib \<Rightarrow> val \<Rightarrow> val" where
  "sanitizeInput L v =
     (case v of
        JStr s \<Rightarrow> JStr (filter (\<lambda>c. c \<noteq> CHR ''<'' \<and> c \<noteq> CHR ''>'') (trim L s))
      | _ \<Rightarrow> v)"

text \<open>
  The length rule of the \<open>username\<close> chain of this module's \<open>registerValidation\<close>, which
  no route uses.
\<close>

definition mw_register_username_length :: "lib \<Rightarrow> ctx \<Rightarrow> verror list" where
  "mw_register_username_length L c =
     validate L (\<lambda>s. 3 \<le> length s \<and> length s \<le> 30) ''username''
       ''Username must be between 3 and 30 characters''
       (sanitizeInput L (field c ''username''))"

text \<open>
  The \<open>end_date\<close> chain of this module's \<open>projectValidation\<close>. The custom validator
  throws the first of its two messages that applies; ten years are
  \<open>10 * 365 * 24 * 60 * 60 * 1000\<close> milliseconds.
\<close>

definition mw_end_date_custom :: "lib \<Rightarrow> ctx \<Rightarrow> val \<Rightarrow> verror list" where
  "mw_end_date_custom L c v =
     (if js_truthy v \<and> js_truthy (field c ''start_date'') then
        (if date_le L v (field c ''start_date'') then
           [\<lparr>e_param = ''end_date'', e_msg = ''End date must be after start date''\<rparr>]
         else
           (case (toDate L v, toDate L (field c ''start_date'')) of
              (Some e, Some s) \<Rightarrow>
                if e > s + 10 * 365 * 24 * 60 * 60 * 1000 then
                  [\<lparr>e_param = ''end_date'',
                    e_msg = ''End date cannot be more than 10 years after start date''\<rparr>]
                else []
            | _ \<Rightarrow> []))
      else [])"

definition mw_project_end_date :: "lib \<Rightarrow> ctx \<Rightarrow> ctx" where
  "mw_project_end_date L c =
     (if \<not> js_truthy (field c ''end_date'') then c
      else
        add_errors
          (validate L (isISO8601 L) ''end_date''
             ''Please provide a valid end date (YYYY-MM-DD)'' (field c ''end_date'') @
           mw_end_date_custom L c (field c ''end_date''))
          c)"




subsection \<open>Schema bootstrap (\<open>database/\<close>)\<close>

text \<open>
  The server holds databases by name; a database holds the tables that exist. A
  statement on a database or a table that does not exist fails.
\<close>

record 'r table =
  rows :: "'r list"
  auto_inc :: int

record schema =
  t_users :: "user_row table option"
  t_projects :: "project_row table option"

type_synonym server = "string \<rightharpoonup> schema"

datatype sql_error = ER_BAD_DB_ERROR

text \<open>\<open>CREATE DATABASE IF NOT EXISTS\<close>\<close>

definition createDatabase :: "string \<Rightarrow> server \<Rightarrow> server" where
  "createDatabase targetDb S =
     (case S targetDb of
        None \<Rightarrow> S(targetDb \<mapsto> \<lparr>t_users = None, t_projects = None\<rparr>)
      | Some sch \<Rightarrow> S)"

text \<open>The two \<open>CREATE TABLE IF NOT EXISTS\<close> statements, \<open>users\<close> first.\<close>

definition createTables :: "string \<Rightarrow> server \<Rightarrow> sql_error + server" where
  "createTables targetDb S =
     (case S targetDb of
        None \<Rightarrow> Inl ER_BAD_DB_ERROR
      | Some sch \<Rightarrow>
          (let sch1 = (case t_users sch of
                         None \<Rightarrow> sch\<lparr>t_users := Some \<lparr>rows = [], auto_inc = 1\<rparr>\<rparr>
                       | Some t \<Rightarrow> sch);
               sch2 = (case t_projects sch1 of
                         None \<Rightarrow> sch1\<lparr>t_projects := Some \<lparr>rows = [], auto_inc = 1\<rparr>\<rparr>
                       | Some t \<Rightarrow> sch1)
           in Inr (S(targetDb \<mapsto> sch2))))"

definition sample_projects :: "(string \<times> string \<times> string \<times> string) list" where
  "sample_projects =
     [(''E-commerce Site'', ''2024-02-01'',
       ''Online shopping platform with payment integration'', ''development''),
      (''Task Manager App'', ''2024-01-15'',
       ''Mobile app for personal task management'', ''testing''),
      (''Legacy Migration'', ''2023-12-10'',
       ''Moving old system to modern database'', ''complete'')]"

fun insert_samples ::
  "int \<Rightarrow> (string \<times> string \<times> string \<times> string) list \<Rightarrow> project_row table \<Rightarrow> project_row table" where
  "insert_samples u [] t = t"
| "insert_samples u ((title, start, descr, phase) # ps) t =
     insert_samples u ps
       (t\<lparr>rows := rows t @
            [\<lparr>p_pid = auto_inc t, p_title = title, p_start_date = start, p_end_date = None,
              p_short_description = descr, p_phase = phase, p_uid = u\<rparr>],
          auto_inc := auto_inc t + 1\<rparr>)"

text \<open>
  \<open>addSampleData\<close>, with the hash of the random password that it draws. Every error is
  caught and logged: a statement that fails ends the function and keeps what the
  statements before it have written.
\<close>

definition addSampleData :: "string \<Rightarrow> string \<Rightarrow> server \<Rightarrow> server" where
  "addSampleData hashedPassword dbName S =
     (case S dbName of
        None \<Rightarrow> S
      | Some sch \<Rightarrow>
          (case t_users sch of
             None \<Rightarrow> S
           | Some ut \<Rightarrow>
               if int (length (rows ut)) > 0 then S
               else
                 (let sch1 = sch\<lparr>t_users := Some
                        (ut\<lparr>rows := rows ut @
                               [\<lparr>u_uid = auto_inc ut, u_username = ''testuser'',
                                 u_password = hashedPassword, u_email = ''test@example.com''\<rparr>],
                            auto_inc := auto_inc ut + 1\<rparr>)\<rparr>
                  in case t_projects sch1 of
                       None \<Rightarrow> S(dbName \<mapsto> sch1)
                     | Some pt \<Rightarrow>
                         S(dbName \<mapsto> sch1\<lparr>t_projects :=
                             Some (insert_samples (auto_inc ut) sample_projects pt)\<rparr>))))"

text \<open>\<open>setupDatabase\<close>: an error of \<open>createTables\<close> is logged and ends the setup.\<close>

definition setupDatabase :: "string \<Rightarrow> string \<Rightarrow> server \<Rightarrow> server" where
  "setupDatabase hashedPassword targetDb S =
     (case createTables targetDb (createDatabase targetDb S) of
        Inl e \<Rightarrow> createDatabase targetDb S
      | Inr S2 \<Rightarrow> addSampleData hashedPassword targetDb S2)"

text \<open>
  An initialized store: the database and its two tables exist and \<open>users\<close> has a row,
  as after a run of \<open>setupDatabase\<close>.
\<close>

definition initialized :: "string \<Rightarrow> server \<Rightarrow> bool" where
  "initialized targetDb S \<longleftrightarrow>
     (case S targetDb of
        None \<Rightarrow> False
      | Some sch \<Rightarrow>
          (case (t_users sch, t_projects sch) of
             (Some ut, Some pt) \<Rightarrow> rows ut \<noteq> []
           | _ \<Rightarrow> False))"

subsection \<open>Reading a response, and data to run the routes on\<close>

fun status :: "response \<Rightarrow> nat" where
  "status (Render n view locals) = n"
| "status (Redirect url) = 302"
| "status (Json n v) = n"

text \<open>
  Simple stand-ins for the library functions, two users and a project of the first one,
  used to run the routes on concrete requests.
\<close>

definition is_space :: "char \<Rightarrow> bool" where
  "is_space c \<longleftrightarrow> c \<in> set [CHR '' '', CHR 0x09, CHR 0x0A, CHR 0x0B, CHR 0x0C, CHR 0x0D]"

definition demo_lib :: lib where
  "demo_lib =
     \<lparr>isWhiteSpace = is_space,
      stringify = (\<lambda>v. case v of JNum n \<Rightarrow> show_int n
                           | JBool b \<Rightarrow> (if b then ''true'' else ''false'')
                           | _ \<Rightarrow> ''[object Object]''),
      isEmail = (\<lambda>s. CHR ''@'' \<in> set s),
      normalizeEmail = (\<lambda>s. s),
      isISO8601 = (\<lambda>s. length s = 10),
      toDate = (\<lambda>v. if v = JStr ''2024-02-01'' then Some 1706745600000
                     else if v = JStr ''2024-03-01'' then Some 1709251200000 else None),
      jsIsNaN = (\<lambda>s. \<not> list_all is_digit s),
      bcrypt_hash = (\<lambda>s. ''hash:'' @ s),
      bcrypt_compare = (\<lambda>p h. h = ''hash:'' @ p),
      sqlStrEq = (\<lambda>a b. a = b),
      sqlInt = (\<lambda>s. if s = ''1'' then Some 1 else if s = ''2'' then Some 2 else None),
      sqlBind = (\<lambda>v. None),
      orderByStartDesc = (\<lambda>ps. ps)\<rparr>"

definition alice :: user_row where
  "alice = \<lparr>u_uid = 1, u_username = ''alice'', u_password = ''hash:Secret1'',
            u_email = ''alice@example.com''\<rparr>"

definition bob :: user_row where
  "bob = \<lparr>u_uid = 2, u_username = ''bob'', u_password = ''hash:Secret2'',
          u_email = ''bob@example.com''\<rparr>"

definition site :: project_row where
  "site = \<lparr>p_pid = 1, p_title = ''Web site'', p_start_date = ''2024-02-01'', p_end_date = None,
           p_short_description = ''A site for the club'', p_phase = ''design'', p_uid = 1\<rparr>"

definition demo_store :: store where
  "demo_store = \<lparr>users = [alice, bob], next_uid = 3, projects = [site], next_pid = 2\<rparr>"

definition guest :: session where
  "guest = \<lparr>user = None, returnTo = None, successMessage = None, errorMessage = None,
            csrfToken = None\<rparr>"

definition logged_in :: "user_row \<Rightarrow> session" where
  "logged_in u =
     guest\<lparr>user := Some \<lparr>s_uid = u_uid u, s_username = u_username u, s_email = u_email u\<rparr>\<rparr>"

text \<open>A request with the fields \<open>kvs\<close> in its body; every other field is absent.\<close>

definition form :: "string \<Rightarrow> string \<Rightarrow> (string \<times> val) list \<Rightarrow> request" where
  "form m i kvs =
     \<lparr>r_method = m, r_xhr = False, r_headers = Map.empty, r_ip = ''192.0.2.1'', r_id = i,
      r_body = (\<lambda>k. case map_of kvs k of None \<Rightarrow> JUndefined | Some v \<Rightarrow> v)\<rparr>"

definition arriving :: "session \<Rightarrow> request \<Rightarrow> ctx" where
  "arriving s r = \<lparr>sess = s, req = r, db = demo_store, errs = []\<rparr>"

definition project_form :: "string \<Rightarrow> string \<Rightarrow> (string \<times> val) list" where
  "project_form start end =
     [(''title'', JStr ''Club site''), (''short_description'', JStr ''A new site for the club''),
      (''start_date'', JStr start), (''end_date'', JStr end), (''phase'', JStr ''design'')]"

definition register_form :: "string \<Rightarrow> string \<Rightarrow> string \<Rightarrow> (string \<times> val) list" where
  "register_form n e p =
     [(''username'', JStr n), (''email'', JStr e), (''password'', JStr p),
      (''confirmPassword'', JStr p)]"

definition demo_server :: server where
  "demo_server =
     [''project_manager'' \<mapsto>
        \<lparr>t_users = Some \<lparr>rows = [alice], auto_inc = 2\<rparr>,
         t_projects = Some \<lparr>rows = [site], auto_inc = 2\<rparr>\<rparr>]"







text \<open>
  A login request for the name of alice with the number 123 as its password, as a JSON
  body carries it.
\<close>

definition number_password :: request where
  "number_password = form ''POST'' [] [(''username'', JStr ''alice''), (''password'', JNum 123)]"

section \<open>Properties\<close>

subsection \<open>Auxiliary facts\<close>

lemmas demo_defs =
  arriving_def form_def guest_def logged_in_def demo_store_def demo_lib_def alice_def bob_def
  site_def

lemmas char_defs =
  trim_def is_space_def is_lower_def is_upper_def is_digit_def matches_word_def
  matches_mixed_def first_line_def

text \<open>Trimming a trimmed string changes nothing, and trimming never lengthens.\<close>

lemma trim_idem: "trim L (trim L s) = trim L s"
proof -
  define w where "w = isWhiteSpace L"
  define y where "y = dropWhile w s"
  define z where "z = dropWhile w (rev y)"
  have t: "trim L s = rev z" by (simp add: trim_def w_def y_def z_def)
  have "trim L (rev z) = rev z"
  proof (cases "z = []")
    case True
    then show ?thesis by (simp add: trim_def)
  next
    case False
    then have hz: "\<not> w (hd z)" unfolding z_def by (rule hd_dropWhile)
    have "rev y = takeWhile w (rev y) @ z" by (simp add: z_def)
    then have "y = rev z @ rev (takeWhile w (rev y))"
      by (metis rev_append rev_rev_ident)
    with False have hy: "hd (rev z) = hd y" and "y \<noteq> []"
      by (metis hd_append2 rev_is_Nil_conv, auto)
    then have "\<not> w (hd y)" unfolding y_def by (metis hd_dropWhile)
    with hy have "dropWhile w (rev z) = rev z" by (simp add: dropWhile_eq_self_iff)
    moreover from hz have "dropWhile w z = z" by (simp add: dropWhile_eq_self_iff)
    ultimately show ?thesis by (simp add: trim_def w_def)
  qed
  then show ?thesis by (simp only: t)
qed

lemma length_trim: "length (trim L s) \<le> length s"
  by (metis trim_def length_rev length_dropWhile_le le_trans)

text \<open>A validator and a sanitizer on a value that is not an array.\<close>

lemma validate_single: "\<not> is_array v \<Longrightarrow> validate L P k m v = check (P (text_of L v)) k m"
  by (cases v) (simp_all add: validate_def)

lemma sanitize_single: "\<not> is_array v \<Longrightarrow> sanitize L f v = JStr (f (text_of L v))"
  by (cases v) (simp_all add: sanitize_def)

lemma text_of_JStr: "text_of L (JStr s) = s"
  by (simp add: text_of_def)

lemma sanitize_array: "is_array v \<Longrightarrow> as_text (sanitize L f v) = None"
  by (cases v) (simp_all add: sanitize_def)

text \<open>In a table with a key, two rows with the same key are the same row.\<close>

lemma same_key_same_row:
  assumes "distinct (map f xs)" and "x \<in> set xs" and "y \<in> set xs" and "f x = f y"
  shows "x = y"
  using assms by (meson distinct_map inj_on_def)

text \<open>The validation chains write to the body and to the error list only.\<close>

lemmas register_chain_defs =
  register_validated_def register_username_def register_email_def register_password_def
  register_confirm_def add_errors_def set_field_def field_def

lemma register_validated_frame:
  "db (register_validated L c) = db c"
  "sess (register_validated L c) = sess c"
  by (simp_all add: register_chain_defs Let_def)


lemma project_validated_frame:
  "db (project_validated L c) = db c"
  "sess (project_validated L c) = sess c"
  "r_id (req (project_validated L c)) = r_id (req c)"
  by (simp_all add: project_validated_def project_phase_def project_end_date_def
      project_start_date_def project_short_description_def project_title_def
      add_errors_def set_field_def Let_def)

lemma POST_register_guest:
  "user (sess c) = None \<Longrightarrow> POST_register L c = register_handler L (register_validated L c)"
  by (simp add: POST_register_def requireGuest_def registerValidation_def register_handler_def
      split: outcome.splits)

lemma POST_register_logged_in:
  "user (sess c) \<noteq> None \<Longrightarrow> POST_register L c = Respond (Redirect ''/dashboard'') c"
  by (simp add: POST_register_def requireGuest_def)

subsection \<open>The CSRF guards and the routes\<close>

text \<open>
  Each of the two hand-written guards, where it runs, answers 403 to a request that is not
  a \<open>GET\<close> unless the session holds a token and the request carries that token, in
  the guard's body field or, when that field is falsy, in the header \<open>x-csrf-token\<close>.
\<close>

lemma validateCSRFToken_guard:
  assumes "r_method (req c) \<noteq> ''GET''"
    and "\<not> (truthy (csrfToken (sess c)) \<and>
             (field c ''_csrf'' = opt_val (csrfToken (sess c)) \<or>
              r_headers (req c) ''x-csrf-token'' = csrfToken (sess c)))"
  shows "\<exists>r. validateCSRFToken c = Respond r c \<and> status r = 403"
proof -
  have "\<not> js_truthy (opt_val (csrfToken (sess c))) \<or>
        \<not> js_truthy (js_or (field c ''_csrf'') (opt_val (r_headers (req c) ''x-csrf-token''))) \<or>
        \<not> strict_eq (opt_val (csrfToken (sess c)))
             (js_or (field c ''_csrf'') (opt_val (r_headers (req c) ''x-csrf-token'')))"
  proof (cases "csrfToken (sess c)")
    case None
    then show ?thesis by (simp add: opt_val_def)
  next
    case (Some t)
    show ?thesis
    proof (cases "js_truthy (field c ''_csrf'')")
      case True
      with Some assms(2) show ?thesis
        by (cases "field c ''_csrf''") (auto simp: js_or_def opt_val_def truthy_def)
    next
      case False
      with Some assms(2) show ?thesis
        by (cases "r_headers (req c) ''x-csrf-token''")
           (auto simp: js_or_def opt_val_def truthy_def)
    qed
  qed
  then show ?thesis
    using assms(1) by (auto simp: validateCSRFToken_def Let_def)
qed

lemma csrfProtection_guard:
  assumes "r_method (req c) \<noteq> ''GET''"
    and "\<not> (truthy (csrfToken (sess c)) \<and>
             (field c ''csrfToken'' = opt_val (csrfToken (sess c)) \<or>
              r_headers (req c) ''x-csrf-token'' = csrfToken (sess c)))"
  shows "\<exists>r. csrfProtection fresh c = Respond r c \<and> status r = 403"
proof -
  have "\<not> js_truthy (js_or (field c ''csrfToken'') (opt_val (r_headers (req c) ''x-csrf-token''))) \<or>
        \<not> strict_eq (js_or (field c ''csrfToken'') (opt_val (r_headers (req c) ''x-csrf-token'')))
             (opt_val (csrfToken (sess c)))"
  proof (cases "csrfToken (sess c)")
    case None
    then show ?thesis
      by (cases "js_or (field c ''csrfToken'') (opt_val (r_headers (req c) ''x-csrf-token''))")
         (simp_all add: opt_val_def)
  next
    case (Some t)
    show ?thesis
    proof (cases "js_truthy (field c ''csrfToken'')")
      case True
      with Some assms(2) show ?thesis
        by (cases "field c ''csrfToken''") (auto simp: js_or_def opt_val_def truthy_def)
    next
      case False
      with Some assms(2) show ?thesis
        by (cases "r_headers (req c) ''x-csrf-token''")
           (auto simp: js_or_def opt_val_def truthy_def)
    qed
  qed
  then show ?thesis
    using assms(1) by (auto simp: csrfProtection_def Let_def)
qed

text \<open>
  The owner of project 1, whose session holds a token, posts to \<open>/delete-project/1\<close>
  with no token in the body and none in a header. The guard \<open>validateCSRFToken\<close>
  answers this request with 403.
\<close>

lemma validateCSRFToken_on_delete:
  "validateCSRFToken
     (arriving ((logged_in alice)\<lparr>csrfToken := Some ''5f2a''\<rparr>) (form ''POST'' ''1'' [])) =
     Respond
       (Render 403 ''error''
          (JObj [(''title'', JStr ''Security Error''),
                 (''message'', JStr ''Invalid security token. Please try again.'')]))
       (arriving ((logged_in alice)\<lparr>csrfToken := Some ''5f2a''\<rparr>) (form ''POST'' ''1'' []))"
  by (simp add: validateCSRFToken_def field_def js_or_def opt_val_def wants_json_def demo_defs)

text \<open>
  C1. The claim: every request that is not a \<open>GET\<close> is answered 403 unless it carries the
  CSRF token of its session, so no mutating handler runs without a matching token. The
  application mounts no CSRF guard on any route: on the request above, which carries no
  token, it runs the handler, deletes the row of the project and redirects to the
  dashboard.
\<close>

theorem delete_runs_without_csrf_token:
  "app demo_lib ''/delete-project/:id''
     (arriving ((logged_in alice)\<lparr>csrfToken := Some ''5f2a''\<rparr>) (form ''POST'' ''1'' [])) =
     Respond (Redirect ''/dashboard'')
       ((arriving
           ((logged_in alice)\<lparr>csrfToken := Some ''5f2a'',
              successMessage := Some ''Project deleted successfully!''\<rparr>)
           (form ''POST'' ''1'' []))\<lparr>db := demo_store\<lparr>projects := []\<rparr>\<rparr>)"
  by (simp add: app_def POST_delete_project_def requireAuth_def delete_project_handler_def
      owned_def demo_defs)

subsection \<open>Ownership\<close>

lemma not_owned_by_other:
  assumes "distinct (map p_pid ps)" and "p \<in> set ps"
    and "sqlInt L i = Some (p_pid p)" and "p_uid p \<noteq> u"
  shows "filter (owned L i u) ps = []"
proof -
  have "\<not> owned L i u q" if "q \<in> set ps" for q
  proof
    assume o: "owned L i u q"
    with assms(3) have "p_pid q = p_pid p" by (simp add: owned_def)
    with assms(1,2) that have "q = p" by (meson same_key_same_row)
    with o assms(4) show False by (simp add: owned_def)
  qed
  then show ?thesis by (simp add: filter_empty_conv)
qed

text \<open>
  C2. A session whose user is not the owner of the project that \<open>:id\<close> names posts to
  \<open>/edit-project/:id\<close> or to \<open>/delete-project/:id\<close>: the answer is a redirect to the
  dashboard and the store is the one before the request, the row of the project and every
  other row.
\<close>

theorem non_owner_request_changes_nothing:
  assumes "user (sess c) = Some u"
    and "distinct (map p_pid (projects (db c)))"
    and "p \<in> set (projects (db c))"
    and "sqlInt L (r_id (req c)) = Some (p_pid p)"
    and "p_uid p \<noteq> s_uid u"
  shows "reply (POST_edit_project L c) = Some (Redirect ''/dashboard'') \<and>
         db (final (POST_edit_project L c)) = db c \<and>
         reply (POST_delete_project L c) = Some (Redirect ''/dashboard'') \<and>
         db (final (POST_delete_project L c)) = db c"
proof -
  have none: "filter (owned L (r_id (req c)) (s_uid u)) (projects (db c)) = []"
    using assms(2-5) by (rule not_owned_by_other)
  then have keep:
    "filter (\<lambda>p. \<not> owned L (r_id (req c)) (s_uid u) p) (projects (db c)) = projects (db c)"
    by (simp add: filter_empty_conv)
  have e: "POST_edit_project L c = edit_project_handler L (project_validated L c)"
    using assms(1)
    by (simp add: POST_edit_project_def requireAuth_def projectValidation_def
        edit_project_handler_def project_validated_frame split: outcome.splits)
  have "edit_project_handler L (project_validated L c) =
          Respond (Redirect ''/dashboard'')
            ((project_validated L c)\<lparr>sess := (sess c)\<lparr>errorMessage :=
               Some ''Project not found or you do not have permission to edit it.''\<rparr>\<rparr>)"
    using assms(1) none by (simp add: edit_project_handler_def project_validated_frame)
  with e have edit: "reply (POST_edit_project L c) = Some (Redirect ''/dashboard'')"
    "db (final (POST_edit_project L c)) = db c"
    by (simp_all add: project_validated_frame)
  have "POST_delete_project L c =
          Respond (Redirect ''/dashboard'')
            (c\<lparr>db := (db c)\<lparr>projects := projects (db c)\<rparr>,
               sess := (sess c)\<lparr>errorMessage :=
                 Some ''Project not found or you do not have permission to delete it.''\<rparr>\<rparr>)"
    using assms(1) none keep
    by (simp add: POST_delete_project_def requireAuth_def delete_project_handler_def)
  then have "reply (POST_delete_project L c) = Some (Redirect ''/dashboard'')"
    "db (final (POST_delete_project L c)) = db c"
    by simp_all
  with edit show ?thesis by simp
qed

theorem non_owner_request_changes_nothing_witness:
  "reply (POST_edit_project demo_lib (arriving (logged_in bob) (form ''POST'' ''1'' []))) =
     Some (Redirect ''/dashboard'') \<and>
   db (final (POST_edit_project demo_lib (arriving (logged_in bob) (form ''POST'' ''1'' [])))) =
     demo_store \<and>
   reply (POST_delete_project demo_lib (arriving (logged_in bob) (form ''POST'' ''1'' []))) =
     Some (Redirect ''/dashboard'') \<and>
   db (final (POST_delete_project demo_lib (arriving (logged_in bob) (form ''POST'' ''1'' [])))) =
     demo_store"
  using non_owner_request_changes_nothing
    [of "arriving (logged_in bob) (form ''POST'' ''1'' [])"
        "\<lparr>s_uid = 2, s_username = ''bob'', s_email = ''bob@example.com''\<rparr>" site demo_lib]
  by (simp add: demo_defs)

text \<open>
  The guard \<open>requireProjectOwnership\<close>, which no route uses, answers such a session with
  403 or with the redirect and leaves the store as it was.
\<close>

lemma requireProjectOwnership_guard:
  assumes "user (sess c) = Some u" and "s_uid u \<noteq> 0" and "r_id (req c) \<noteq> []"
    and "distinct (map p_pid (projects (db c)))"
    and "p \<in> set (projects (db c))"
    and "sqlInt L (r_id (req c)) = Some (p_pid p)"
    and "p_uid p \<noteq> s_uid u"
  shows "\<exists>r c'. requireProjectOwnership L c = Respond r c' \<and> db c' = db c \<and>
           (r = Redirect ''/dashboard'' \<or> status r = 403)"
proof -
  obtain q qs where
    q: "filter (\<lambda>p. sqlInt L (r_id (req c)) = Some (p_pid p)) (projects (db c)) = q # qs"
    using assms(5,6) by (metis (mono_tags, lifting) filter_empty_conv list.exhaust)
  then have "q \<in> set (filter (\<lambda>p. sqlInt L (r_id (req c)) = Some (p_pid p)) (projects (db c)))"
    by simp
  then have "q \<in> set (projects (db c))" and "p_pid q = p_pid p" using assms(6) by auto
  with assms(4,5) have "q = p" by (meson same_key_same_row)
  with q assms show ?thesis
    by (auto simp: requireProjectOwnership_def flash_error_def)
qed

subsection \<open>Registration\<close>

lemma register_username_error:
  assumes "\<not> is_array (field c ''username'')"
    and "length (text_of L (field c ''username'')) < 3"
  shows "\<lparr>e_param = ''username'', e_msg = ''Username must be between 3 and 50 characters''\<rparr>
           \<in> set (errs (register_validated L c))"
proof -
  have "length (trim L (text_of L (field c ''username''))) < 3"
    using assms(2) length_trim [of L "text_of L (field c ''username'')"] by linarith
  then show ?thesis
    using assms(1)
    by (simp add: register_validated_def register_username_def register_email_def
        register_password_def register_confirm_def add_errors_def set_field_def
        sanitize_single validate_single text_of_JStr check_def Let_def)
qed

text \<open>
  The \<open>registerValidation\<close> of \<open>middleware/validation.js\<close>, which \<open>POST /register\<close>
  does not use, states another bound for the same field.
\<close>

lemma mw_register_username_bound:
  assumes "field c ''username'' = JStr s" and "length s < 3"
  shows "mw_register_username_length L c =
           [\<lparr>e_param = ''username'', e_msg = ''Username must be between 3 and 30 characters''\<rparr>]"
proof -
  have "length (filter (\<lambda>c. c \<noteq> CHR ''<'' \<and> c \<noteq> CHR ''>'') (trim L s)) \<le> length (trim L s)"
    by simp
  with assms(2) have "length (filter (\<lambda>c. c \<noteq> CHR ''<'' \<and> c \<noteq> CHR ''>'') (trim L s)) < 3"
    using length_trim [of L s] by linarith
  then show ?thesis
    using assms(1)
    by (simp add: mw_register_username_length_def sanitizeInput_def validate_def text_of_def
        check_def)
qed

text \<open>The handler on a context that the validation has left.\<close>

lemma register_handler_errors:
  "errs v \<noteq> [] \<Longrightarrow>
   register_handler L v =
     Respond (register_page (JArr (map error_val (errs v)))
                (body_val (req v) [''username'', ''email''])) v"
  by (simp add: register_handler_def Let_def)





lemmas register_eval_defs =
  demo_defs register_form_def register_chain_defs validate_def sanitize_def text_of_def
  check_def char_defs


text \<open>
  C6, as the claim states it, fails for a session that is logged in: \<open>requireGuest\<close>
  sends it to the dashboard before any validation, so no message is reported. Here alice,
  logged in, posts the name \<open>ab\<close>: the answer is the redirect, and the context has no
  validation error.
\<close>

theorem register_short_username_counterexample:
  "POST_register demo_lib
     (arriving (logged_in alice) (form ''POST'' [] [(''username'', JStr ''ab'')])) =
     Respond (Redirect ''/dashboard'')
       (arriving (logged_in alice) (form ''POST'' [] [(''username'', JStr ''ab'')])) \<and>
   errs (arriving (logged_in alice) (form ''POST'' [] [(''username'', JStr ''ab'')])) = []"
  by (simp add: POST_register_def requireGuest_def demo_defs)

text \<open>
  C6, amended. A request to \<open>POST /register\<close> whose \<open>username\<close> is a text of fewer than
  three characters writes no row. From a guest it is rejected: the answer is the
  registration page with the errors of the validation, and
  \<open>Username must be between 3 and 50 characters\<close> is among them, for the field
  \<open>username\<close>. From a session that is logged in it is answered with the redirect to
  the dashboard.
\<close>

theorem register_short_username:
  assumes "\<not> is_array (field c ''username'')"
    and "length (text_of L (field c ''username'')) < 3"
  shows "db (final (POST_register L c)) = db c \<and>
         (user (sess c) = None \<longrightarrow>
            \<lparr>e_param = ''username'', e_msg = ''Username must be between 3 and 50 characters''\<rparr>
              \<in> set (errs (register_validated L c)) \<and>
            POST_register L c =
              Respond (register_page (JArr (map error_val (errs (register_validated L c))))
                         (body_val (req (register_validated L c)) [''username'', ''email'']))
                      (register_validated L c)) \<and>
         (user (sess c) \<noteq> None \<longrightarrow> POST_register L c = Respond (Redirect ''/dashboard'') c)"
proof (cases "user (sess c) = None")
  case False
  then show ?thesis by (auto simp: POST_register_logged_in)
next
  case True
  have e: "\<lparr>e_param = ''username'', e_msg = ''Username must be between 3 and 50 characters''\<rparr>
           \<in> set (errs (register_validated L c))"
    using assms by (rule register_username_error)
  then have "errs (register_validated L c) \<noteq> []" by auto
  then have "register_handler L (register_validated L c) =
        Respond (register_page (JArr (map error_val (errs (register_validated L c))))
                   (body_val (req (register_validated L c)) [''username'', ''email'']))
                (register_validated L c)"
    by (rule register_handler_errors)
  with True e show ?thesis
    by (simp add: POST_register_guest register_validated_frame)
qed

theorem register_short_username_witness:
  "POST_register demo_lib (arriving guest (form ''POST'' [] [(''username'', JStr ''ab'')])) =
     Respond (register_page
        (JArr [JObj [(''msg'', JStr ''Username must be between 3 and 50 characters''),
                     (''param'', JStr ''username'')],
               JObj [(''msg'', JStr ''Please provide a valid email address''),
                     (''param'', JStr ''email'')],
               JObj [(''msg'', JStr ''Password must be at least 6 characters long''),
                     (''param'', JStr ''password'')],
               JObj [(''msg'', JStr ''Password must contain at least one lowercase letter, one uppercase letter, and one number''),
                     (''param'', JStr ''password'')]])
        (JObj [(''username'', JStr ''ab''), (''email'', JStr [])]))
       (register_validated demo_lib
          (arriving guest (form ''POST'' [] [(''username'', JStr ''ab'')]))) \<and>
   db (final (POST_register demo_lib
         (arriving guest (form ''POST'' [] [(''username'', JStr ''ab'')])))) = demo_store \<and>
   POST_register demo_lib
     (arriving (logged_in bob) (form ''POST'' [] [(''username'', JStr ''ab'')])) =
     Respond (Redirect ''/dashboard'')
       (arriving (logged_in bob) (form ''POST'' [] [(''username'', JStr ''ab'')]))"
proof -
  have h: "\<not> is_array (field (arriving s (form ''POST'' [] [(''username'', JStr ''ab'')])) ''username'')"
    "length (text_of demo_lib
       (field (arriving s (form ''POST'' [] [(''username'', JStr ''ab'')])) ''username'')) < 3"
    for s by (simp_all add: demo_defs field_def text_of_def)
  have g: "user (sess (arriving guest (form ''POST'' [] [(''username'', JStr ''ab'')]))) = None"
    "user (sess (arriving (logged_in bob) (form ''POST'' [] [(''username'', JStr ''ab'')]))) \<noteq> None"
    "db (arriving guest (form ''POST'' [] [(''username'', JStr ''ab'')])) = demo_store"
    by (simp_all add: demo_defs)
  have es: "map error_val (errs (register_validated demo_lib
              (arriving guest (form ''POST'' [] [(''username'', JStr ''ab'')])))) =
        [JObj [(''msg'', JStr ''Username must be between 3 and 50 characters''),
               (''param'', JStr ''username'')],
         JObj [(''msg'', JStr ''Please provide a valid email address''),
               (''param'', JStr ''email'')],
         JObj [(''msg'', JStr ''Password must be at least 6 characters long''),
               (''param'', JStr ''password'')],
         JObj [(''msg'', JStr ''Password must contain at least one lowercase letter, one uppercase letter, and one number''),
               (''param'', JStr ''password'')]]"
    "body_val (req (register_validated demo_lib
        (arriving guest (form ''POST'' [] [(''username'', JStr ''ab'')])))) [''username'', ''email''] =
      JObj [(''username'', JStr ''ab''), (''email'', JStr [])]"
    by (simp_all add: register_eval_defs error_val_def body_val_def Let_def)
  show ?thesis
    using register_short_username [OF h, of guest] register_short_username [OF h, of "logged_in bob"]
      g es
    by (simp add: register_validated_frame)
qed

subsection \<open>Login\<close>

lemma login_validated_db:
  "login_validated L (c\<lparr>db := d\<rparr>) = (login_validated L c)\<lparr>db := d\<rparr>"
  by (simp add: login_validated_def field_def set_field_def add_errors_def Let_def)

lemma login_validated_username:
  "field (login_validated L c) ''username'' = sanitize L (trim L) (field c ''username'')"
  by (simp add: login_validated_def field_def set_field_def add_errors_def Let_def)

lemma login_validated_password:
  "field (login_validated L c) ''password'' = field c ''password''"
  by (simp add: login_validated_def field_def set_field_def add_errors_def Let_def)

lemma POST_login_guest:
  "user (sess c) = None \<Longrightarrow> POST_login L c = login_handler L (login_validated L c)"
  by (simp add: POST_login_def requireGuest_def loginValidation_def login_handler_def
      split: outcome.splits)

lemma POST_login_logged_in:
  "user (sess c) \<noteq> None \<Longrightarrow> POST_login L c = Respond (Redirect ''/dashboard'') c"
  by (simp add: POST_login_def requireGuest_def)

lemma login_handler_not_text:
  assumes "as_text (field v ''username'') = None" and "errs v = []"
  shows "login_handler L v = Respond (login_page ''Login failed. Please try again.'') v"
  using assms by (simp add: login_handler_def)

lemma login_handler_unknown:
  assumes "field v ''username'' = JStr n" and "users_named L (trim L n) (db v) = []"
    and "errs v = []"
  shows "login_handler L v = Respond (login_page ''Invalid username or password'') v"
  using assms by (simp add: login_handler_def)

lemma login_handler_wrong_password:
  assumes "field v ''username'' = JStr n" and "users_named L (trim L n) (db v) = u # us"
    and "errs v = []"
    and "field v ''password'' = JStr pw"
    and "\<not> bcrypt_compare L pw (u_password u)"
  shows "login_handler L v = Respond (login_page ''Invalid username or password'') v"
  using assms by (simp add: login_handler_def)

text \<open>
  With a password that is a string, a name that no user has and a name of a user with
  another password get the same answer, and the route leaves the same session and request.
\<close>

lemma login_same_answer_for_text_password:
  assumes "field c ''password'' = JStr pw"
    and "users_named L (trim L (text_of L (field c ''username''))) d1 = []"
    and "users_named L (trim L (text_of L (field c ''username''))) d2 = u # us"
    and "\<not> bcrypt_compare L pw (u_password u)"
  shows "reply (POST_login L (c\<lparr>db := d1\<rparr>)) = reply (POST_login L (c\<lparr>db := d2\<rparr>)) \<and>
         final (POST_login L (c\<lparr>db := d1\<rparr>)) = (final (POST_login L (c\<lparr>db := d2\<rparr>)))\<lparr>db := d1\<rparr>"
proof (cases "user (sess c) = None")
  case False
  then show ?thesis by (simp add: POST_login_logged_in)
next
  case True
  define v where "v = login_validated L c"
  have p1: "POST_login L (c\<lparr>db := d1\<rparr>) = login_handler L (v\<lparr>db := d1\<rparr>)"
    and p2: "POST_login L (c\<lparr>db := d2\<rparr>) = login_handler L (v\<lparr>db := d2\<rparr>)"
    using True by (simp_all add: POST_login_guest login_validated_db v_def)
  have vpw: "field v ''password'' = JStr pw"
    using assms(1) by (simp add: v_def login_validated_password)
  show ?thesis
  proof (cases "errs v = []")
    case False
    then show ?thesis by (simp add: p1 p2 login_handler_def)
  next
    case ok: True
    show ?thesis
    proof (cases "is_array (field c ''username'')")
      case True
      then have "as_text (field v ''username'') = None"
        by (simp add: v_def login_validated_username sanitize_array)
      then have "login_handler L (v\<lparr>db := d\<rparr>) =
                   Respond (login_page ''Login failed. Please try again.'') (v\<lparr>db := d\<rparr>)" for d
        using ok by (intro login_handler_not_text) (simp_all add: field_def)
      then show ?thesis by (simp add: p1 p2)
    next
      case False
      then have n: "field v ''username'' = JStr (trim L (text_of L (field c ''username'')))"
        by (simp add: v_def login_validated_username sanitize_single)
      have "login_handler L (v\<lparr>db := d1\<rparr>) =
              Respond (login_page ''Invalid username or password'') (v\<lparr>db := d1\<rparr>)"
        using n assms(2) ok
        by (intro login_handler_unknown [of _ "trim L (text_of L (field c ''username''))"])
           (simp_all add: field_def trim_idem)
      moreover have "login_handler L (v\<lparr>db := d2\<rparr>) =
              Respond (login_page ''Invalid username or password'') (v\<lparr>db := d2\<rparr>)"
        using n assms(3,4) ok vpw
        by (intro login_handler_wrong_password
                    [of _ "trim L (text_of L (field c ''username''))" _ u us pw])
           (simp_all add: field_def trim_idem)
      ultimately show ?thesis by (simp add: p1 p2)
    qed
  qed
qed

lemma show_123: "show_int 123 = ''123''"
  by code_simp

text \<open>
  C4. The claim: a known name with a wrong password and a name that no user has get the
  same answer. The route answers both with \<open>Invalid username or password\<close> when the
  password is a string, and misses the password that is not one: \<open>notEmpty\<close> lets the
  number 123 pass, and \<open>bcrypt.compare\<close>, which runs only once the user is found,
  throws on it. For the name of alice the answer is \<open>Login failed. Please try again.\<close>
  in the store that has alice, and \<open>Invalid username or password\<close> in the store that
  does not have her.
\<close>

theorem login_tells_known_name:
  "reply (POST_login demo_lib (arriving guest number_password)) =
     Some (login_page ''Login failed. Please try again.'') \<and>
   reply (POST_login demo_lib
            ((arriving guest number_password)\<lparr>db := demo_store\<lparr>users := [bob]\<rparr>\<rparr>)) =
     Some (login_page ''Invalid username or password'')"
  by (simp add: POST_login_def requireGuest_def loginValidation_def login_validated_def
      login_handler_def users_named_def number_password_def demo_defs field_def set_field_def
      add_errors_def validate_def sanitize_def text_of_def check_def show_123 char_defs Let_def)

subsection \<open>The end date of a project\<close>

lemma validate_errors:
  "e \<in> set (validate L P k m v) \<Longrightarrow> e = \<lparr>e_param = k, e_msg = m\<rparr>"
  by (auto simp: validate_def check_def split: if_splits)

lemmas project_chain_defs =
  project_validated_def project_phase_def project_end_date_def project_start_date_def
  project_short_description_def project_title_def add_errors_def set_field_def field_def

lemma end_date_absent:
  assumes "errs c = []" and "\<not> js_truthy (field c ''end_date'')"
  shows "\<lparr>e_param = ''end_date'', e_msg = ''End date must be after start date''\<rparr>
              \<notin> set (errs (project_validated L c))"
    and "\<lparr>e_param = ''end_date'', e_msg = ''End date must be after start date''\<rparr>
              \<notin> set (errs (mw_project_end_date L c))"
  using assms
  by (auto simp: project_chain_defs mw_project_end_date_def Let_def dest: validate_errors)

lemma end_date_present:
  assumes "errs c = []" and "js_truthy (field c ''end_date'')"
   and "js_truthy (field c ''start_date'')"
   and "toDate L (field c ''end_date'') = Some e" and "toDate L (field c ''start_date'') = Some s"
  shows "\<lparr>e_param = ''end_date'', e_msg = ''End date must be after start date''\<rparr>
               \<in> set (errs (project_validated L c)) \<longleftrightarrow> e \<le> s"
    and "\<lparr>e_param = ''end_date'', e_msg = ''End date must be after start date''\<rparr>
               \<in> set (errs (mw_project_end_date L c)) \<longleftrightarrow> e \<le> s"
  using assms
  by (auto simp: project_chain_defs mw_project_end_date_def mw_end_date_custom_def
      end_date_rule_def date_le_def check_def Let_def dest: validate_errors)

text \<open>A request with a validation error writes nothing, on creation and on edit.\<close>

lemma rejected_project_changes_nothing:
  assumes "errs (project_validated L c) \<noteq> []"
  shows "db (final (POST_add_project L c)) = db c"
    and "db (final (POST_edit_project L c)) = db c"
proof -
  show "db (final (POST_add_project L c)) = db c"
    using assms
    by (cases "user (sess c)")
       (simp_all add: POST_add_project_def requireAuth_def projectValidation_def
          add_project_handler_def project_validated_frame)
  show "db (final (POST_edit_project L c)) = db c"
    using assms
    by (cases "user (sess c)")
       (simp_all add: POST_edit_project_def requireAuth_def projectValidation_def
          edit_project_handler_def project_validated_frame)
qed

text \<open>
  C5. On a fresh request, for the rule \<open>End date must be after start date\<close> of the
  validation of the project routes and of the one of \<open>middleware/validation.js\<close>: a
  request with no \<open>end_date\<close> (absent, \<open>null\<close> or empty) is not rejected by the
  rule; a request whose \<open>end_date\<close> and \<open>start_date\<close> are the dates \<open>e\<close> and
  \<open>s\<close> is rejected by the rule exactly when \<open>e \<le> s\<close>, that is accepted by it
  exactly when \<open>e\<close> is strictly later; and a rejected request writes nothing, on
  creation and on edit.
\<close>

theorem end_date_after_start_date:
  assumes "errs c = []"
  shows "(\<not> js_truthy (field c ''end_date'') \<longrightarrow>
            \<lparr>e_param = ''end_date'', e_msg = ''End date must be after start date''\<rparr>
              \<notin> set (errs (project_validated L c)) \<and>
            \<lparr>e_param = ''end_date'', e_msg = ''End date must be after start date''\<rparr>
              \<notin> set (errs (mw_project_end_date L c))) \<and>
         (js_truthy (field c ''end_date'') \<and> js_truthy (field c ''start_date'') \<and>
          toDate L (field c ''end_date'') = Some e \<and> toDate L (field c ''start_date'') = Some s \<longrightarrow>
            (\<lparr>e_param = ''end_date'', e_msg = ''End date must be after start date''\<rparr>
               \<in> set (errs (project_validated L c)) \<longleftrightarrow> e \<le> s) \<and>
            (\<lparr>e_param = ''end_date'', e_msg = ''End date must be after start date''\<rparr>
               \<in> set (errs (mw_project_end_date L c)) \<longleftrightarrow> e \<le> s) \<and>
            (e \<le> s \<longrightarrow> db (final (POST_add_project L c)) = db c \<and>
                       db (final (POST_edit_project L c)) = db c))"
proof -
  have "db (final (POST_add_project L c)) = db c \<and> db (final (POST_edit_project L c)) = db c"
    if "\<lparr>e_param = ''end_date'', e_msg = ''End date must be after start date''\<rparr>
               \<in> set (errs (project_validated L c))"
  proof -
    from that have "errs (project_validated L c) \<noteq> []" by auto
    then show ?thesis by (simp add: rejected_project_changes_nothing)
  qed
  then show ?thesis
    using end_date_absent [OF assms, of L] end_date_present [OF assms, of L e s]
    by blast
qed

theorem end_date_after_start_date_witness:
  "\<lparr>e_param = ''end_date'', e_msg = ''End date must be after start date''\<rparr>
     \<notin> set (errs (project_validated demo_lib
           (arriving (logged_in alice) (form ''POST'' [] (project_form ''2024-02-01'' []))))) \<and>
   \<lparr>e_param = ''end_date'', e_msg = ''End date must be after start date''\<rparr>
     \<in> set (errs (project_validated demo_lib
           (arriving (logged_in alice)
              (form ''POST'' [] (project_form ''2024-03-01'' ''2024-02-01''))))) \<and>
   db (final (POST_add_project demo_lib
           (arriving (logged_in alice)
              (form ''POST'' [] (project_form ''2024-03-01'' ''2024-02-01''))))) = demo_store \<and>
   \<lparr>e_param = ''end_date'', e_msg = ''End date must be after start date''\<rparr>
     \<notin> set (errs (project_validated demo_lib
           (arriving (logged_in alice)
              (form ''POST'' [] (project_form ''2024-02-01'' ''2024-03-01'')))))"
  using end_date_after_start_date
          [of "arriving (logged_in alice) (form ''POST'' [] (project_form ''2024-02-01'' []))"
              demo_lib]
        end_date_after_start_date
          [of "arriving (logged_in alice)
                 (form ''POST'' [] (project_form ''2024-03-01'' ''2024-02-01''))"
              demo_lib 1706745600000 1709251200000]
        end_date_after_start_date
          [of "arriving (logged_in alice)
                 (form ''POST'' [] (project_form ''2024-02-01'' ''2024-03-01''))"
              demo_lib 1709251200000 1706745600000]
  by (simp add: demo_defs project_form_def field_def)

subsection \<open>Reading a project\<close>

lemma filter_key_single:
  assumes "distinct (map f xs)" and "x \<in> set xs"
  shows "filter (\<lambda>y. f y = f x) xs = [x]"
  using assms
proof (induction xs)
  case Nil
  then show ?case by simp
next
  case (Cons a xs)
  show ?case
  proof (cases "a = x")
    case True
    with Cons.prems have "\<forall>y\<in>set xs. f y \<noteq> f x" by (auto simp: image_iff)
    then have "filter (\<lambda>y. f y = f x) xs = []" by (simp add: filter_empty_conv)
    with True show ?thesis by simp
  next
    case False
    with Cons.prems have "x \<in> set xs" and "f a \<noteq> f x" by (auto simp: image_iff)
    with Cons show ?thesis by simp
  qed
qed

lemma project_with_owner_single:
  assumes "distinct (map p_pid (projects d))" and "distinct (map u_uid (users d))"
    and "p \<in> set (projects d)" and "owner \<in> set (users d)" and "u_uid owner = p_uid p"
    and "sqlInt L i = Some (p_pid p)"
  shows "project_with_owner L i d = [(p, owner)]"
proof -
  have "filter (\<lambda>q. sqlInt L i = Some (p_pid q)) (projects d) =
        filter (\<lambda>q. p_pid q = p_pid p) (projects d)"
    using assms(6) by (auto intro: filter_cong)
  then have ps: "filter (\<lambda>q. sqlInt L i = Some (p_pid q)) (projects d) = [p]"
    using assms(1,3) by (simp add: filter_key_single)
  have "filter (\<lambda>u. p_uid p = u_uid u) (users d) =
        filter (\<lambda>u. u_uid u = u_uid owner) (users d)"
    using assms(5) by (auto intro: filter_cong)
  then have "filter (\<lambda>u. p_uid p = u_uid u) (users d) = [owner]"
    using assms(2,4) by (simp add: filter_key_single)
  with ps show ?thesis by (simp add: project_with_owner_def)
qed

lemma owned_single:
  assumes "distinct (map p_pid ps)" and "p \<in> set ps" and "sqlInt L i = Some (p_pid p)"
  shows "filter (owned L i u) ps = (if p_uid p = u then [p] else [])"
proof -
  have "filter (owned L i u) ps =
        filter (\<lambda>q. p_uid q = u) (filter (\<lambda>q. p_pid q = p_pid p) ps)"
    using assms(3) by (auto simp: owned_def intro: filter_cong)
  then show ?thesis using assms(1,2) by (simp add: filter_key_single)
qed

text \<open>
  C7, as the claim states it, fails for \<open>GET /api/projects/:id\<close>: the route is behind
  \<open>requireAuth\<close> and its query asks for the session's user as the owner. Project 1
  exists; an anonymous session is sent to \<open>/login\<close>, and the session of a user who does
  not own the project is answered 404.
\<close>

theorem project_read_counterexample:
  "projects demo_store = [site] \<and> sqlInt demo_lib ''1'' = Some (p_pid site) \<and>
   user guest = None \<and>
   app demo_lib ''/api/projects/:id'' (arriving guest (form ''GET'' ''1'' [])) =
     Respond (Redirect ''/login'') (arriving guest (form ''GET'' ''1'' [])) \<and>
   user (logged_in bob) \<noteq> None \<and>
   app demo_lib ''/api/projects/:id'' (arriving (logged_in bob) (form ''GET'' ''1'' [])) =
     Respond (Json 404 (JObj [(''error'', JStr ''Project not found'')]))
       (arriving (logged_in bob) (form ''GET'' ''1'' []))"
  by (simp add: app_def GET_api_project_def requireAuth_def api_project_handler_def owned_def
      demo_defs)

text \<open>
  C7, amended. In a store where \<open>pid\<close> and \<open>uid\<close> are keys, for a project \<open>p\<close> with
  its owner's row and a request whose \<open>:id\<close> is the number of \<open>p\<close>:
  \<open>GET /project/:id\<close> answers every session, an anonymous one too, with the page
  \<open>project-details\<close> that carries the row of \<open>p\<close> (so does the handler of the same path
  in \<open>routes/project.js\<close>); \<open>GET /api/projects/:id\<close> sends an anonymous session to
  \<open>/login\<close>, answers the owner with the row of \<open>p\<close> and any other user with 404.
\<close>

theorem project_read_access:
  assumes "distinct (map p_pid (projects (db c)))" and "distinct (map u_uid (users (db c)))"
    and "p \<in> set (projects (db c))" and "owner \<in> set (users (db c))"
    and "u_uid owner = p_uid p"
    and "sqlInt L (r_id (req c)) = Some (p_pid p)"
  shows "(r_method (req c) = ''GET'' \<and> r_id (req c) \<noteq> [] \<and> \<not> jsIsNaN L (r_id (req c)) \<longrightarrow>
            app L ''/project/:id'' c =
              Respond (Render 200 ''project-details''
                (JObj [(''title'', JStr (p_title p)),
                       (''currentPage'', JStr ''projects''),
                       (''user'', user_or_null (sess c)),
                       (''project'', joined_val p owner),
                       (''relatedProjects'',
                          JArr (map related_val (take 3 (orderByStartDesc L
                            (filter (\<lambda>q. p_uid q = p_uid p \<and> p_pid q \<noteq> p_pid p)
                               (projects (db c))))))),
                       (''canEdit'', is_owner_val (sess c) p)])) c) \<and>
         project_details_handler L c =
           Respond (Render 200 ''project-details''
             (JObj [(''title'', JStr (p_title p @ '' - Project Details'')),
                    (''user'', user_or_null (sess c)),
                    (''project'', joined_val p owner),
                    (''isOwner'', is_owner_val (sess c) p)])) c \<and>
         GET_api_project L c =
           (case user (sess c) of
              None \<Rightarrow> Respond (Redirect ''/login'') c
            | Some u \<Rightarrow>
                if s_uid u = p_uid p then Respond (Json 200 (JObj (project_val p))) c
                else Respond (Json 404 (JObj [(''error'', JStr ''Project not found'')])) c)"
proof -
  have j: "project_with_owner L (r_id (req c)) (db c) = [(p, owner)]"
    using assms by (rule project_with_owner_single)
  have f: "(\<lambda>q. p_uid q = p_uid p \<and> p_pid p \<noteq> p_pid q) =
           (\<lambda>q. p_uid q = p_uid p \<and> p_pid q \<noteq> p_pid p)"
    by auto
  have o: "filter (owned L (r_id (req c)) u) (projects (db c)) = (if p_uid p = u then [p] else [])"
    for u using assms(1,3,6) by (rule owned_single)
  have 1: "r_method (req c) = ''GET'' \<and> r_id (req c) \<noteq> [] \<and> \<not> jsIsNaN L (r_id (req c)) \<longrightarrow>
            app L ''/project/:id'' c =
              Respond (Render 200 ''project-details''
                (JObj [(''title'', JStr (p_title p)),
                       (''currentPage'', JStr ''projects''),
                       (''user'', user_or_null (sess c)),
                       (''project'', joined_val p owner),
                       (''relatedProjects'',
                          JArr (map related_val (take 3 (orderByStartDesc L
                            (filter (\<lambda>q. p_uid q = p_uid p \<and> p_pid q \<noteq> p_pid p)
                               (projects (db c))))))),
                       (''canEdit'', is_owner_val (sess c) p)])) c"
    using j assms(6) by (simp add: app_def public_project_handler_def f)
  have 2: "project_details_handler L c =
           Respond (Render 200 ''project-details''
             (JObj [(''title'', JStr (p_title p @ '' - Project Details'')),
                    (''user'', user_or_null (sess c)),
                    (''project'', joined_val p owner),
                    (''isOwner'', is_owner_val (sess c) p)])) c"
    using j by (simp add: project_details_handler_def)
  have 3: "GET_api_project L c =
           (case user (sess c) of
              None \<Rightarrow> Respond (Redirect ''/login'') c
            | Some u \<Rightarrow>
                if s_uid u = p_uid p then Respond (Json 200 (JObj (project_val p))) c
                else Respond (Json 404 (JObj [(''error'', JStr ''Project not found'')])) c)"
    using o
    by (auto simp: GET_api_project_def requireAuth_def api_project_handler_def
        split: option.splits)
  from 1 2 3 show ?thesis by simp
qed

theorem project_read_access_witness:
  "app demo_lib ''/project/:id'' (arriving guest (form ''GET'' ''1'' [])) =
     Respond (Render 200 ''project-details''
       (JObj [(''title'', JStr ''Web site''),
              (''currentPage'', JStr ''projects''),
              (''user'', JNull),
              (''project'', joined_val site alice),
              (''relatedProjects'', JArr []),
              (''canEdit'', JUndefined)])) (arriving guest (form ''GET'' ''1'' [])) \<and>
   GET_api_project demo_lib (arriving guest (form ''GET'' ''1'' [])) =
     Respond (Redirect ''/login'') (arriving guest (form ''GET'' ''1'' []))"
  using project_read_access [of "arriving guest (form ''GET'' ''1'' [])" site alice demo_lib]
  by (simp add: demo_defs is_digit_def user_or_null_def is_owner_val_def)

subsection \<open>The limiter of login attempts\<close>





text \<open>
  The counter of an address counts the failed attempts that pass the limiter: the first one
  opens the window, each later one adds one.
\<close>

lemma serve_counts_failure:
  assumes "r_ip (a_req a) = i" and "a_result a = LoginFailed"
    and "fst (serve maxAttempts windowMs m a) = Passed ua"
  shows "snd (serve maxAttempts windowMs m a) i =
           Some (case ua of None \<Rightarrow> \<lparr>count = 1, firstAttempt = a_now a\<rparr>
                          | Some d \<Rightarrow> d\<lparr>count := count d + 1\<rparr>)"
  using assms
  by (auto simp: serve_def authRateLimit_def recordFailedAttempt_def Let_def
      split: option.splits if_splits)











subsection \<open>Schema bootstrap\<close>

lemma setup_fixpoint:
  "initialized n S \<Longrightarrow> setupDatabase h n S = S"
  by (auto simp: initialized_def setupDatabase_def createDatabase_def createTables_def
      addSampleData_def map_upd_triv Let_def split: option.splits)

lemma setup_initializes: "initialized n (setupDatabase h n S)"
  by (auto simp: initialized_def setupDatabase_def createDatabase_def createTables_def
      addSampleData_def Let_def split: option.splits)

text \<open>On any server the setup leaves the other databases alone and keeps every row.\<close>

lemma setup_other_databases: "k \<noteq> n \<Longrightarrow> setupDatabase h n S k = S k"
  by (auto simp: setupDatabase_def createDatabase_def createTables_def
      addSampleData_def Let_def split: option.splits)

lemma rows_insert_samples: "take (length (rows t)) (rows (insert_samples u ps t)) = rows t"
proof (induction ps arbitrary: t)
  case Nil
  then show ?case by simp
next
  case (Cons a ps)
  obtain title start descr phase where a: "a = (title, start, descr, phase)" by (cases a) auto
  have "take (length (rows t)) (rows (insert_samples u (a # ps) t)) =
        take (length (rows t)) (take (length (rows t) + 1) (rows (insert_samples u (a # ps) t)))"
    by (simp add: min_def)
  also have "\<dots> = rows t"
    using Cons [of "t\<lparr>rows := rows t @
            [\<lparr>p_pid = auto_inc t, p_title = title, p_start_date = start, p_end_date = None,
              p_short_description = descr, p_phase = phase, p_uid = u\<rparr>],
          auto_inc := auto_inc t + 1\<rparr>"] by (simp add: a)
  finally show ?case .
qed

lemma setup_keeps_rows:
  assumes "S n = Some sch"
  shows "\<exists>sch'. setupDatabase h n S n = Some sch' \<and>
           (\<forall>ut. t_users sch = Some ut \<longrightarrow>
              (\<exists>ut'. t_users sch' = Some ut' \<and> take (length (rows ut)) (rows ut') = rows ut)) \<and>
           (\<forall>pt. t_projects sch = Some pt \<longrightarrow>
              (\<exists>pt'. t_projects sch' = Some pt' \<and> take (length (rows pt)) (rows pt') = rows pt))"
  using assms
  by (auto simp: setupDatabase_def createDatabase_def createTables_def
      addSampleData_def rows_insert_samples Let_def split: option.splits)

text \<open>
  C9. A run of \<open>setupDatabase\<close> leaves an initialized store; on an initialized store a
  run changes nothing: the server after it is the server before it, with every database,
  table, row and counter; so a second run after a first one changes nothing.
\<close>

theorem bootstrap_idempotent:
  "initialized n (setupDatabase h n S) \<and>
   (initialized n S \<longrightarrow> setupDatabase h' n S = S) \<and>
   setupDatabase h' n (setupDatabase h n S) = setupDatabase h n S"
  using setup_fixpoint [of n S h'] setup_fixpoint [of n "setupDatabase h n S" h']
    setup_initializes [of n h S]
  by blast

theorem bootstrap_idempotent_witness:
  "initialized ''project_manager'' demo_server \<and>
   setupDatabase ''$2b$10$abc'' ''project_manager'' demo_server = demo_server \<and>
   initialized ''project_manager'' (setupDatabase ''$2b$10$abc'' ''project_manager'' Map.empty)"
  using bootstrap_idempotent [of "''project_manager''" "''$2b$10$abc''" demo_server "''$2b$10$abc''"]
    bootstrap_idempotent [of "''project_manager''" "''$2b$10$abc''" Map.empty "''$2b$10$abc''"]
  by (simp add: initialized_def demo_server_def)

subsection \<open>The limit of projects of a user\<close>






end
